theory Spec2Isabelle
  imports Complex_Main "HOL-Library.AList"
begin

section \<open>Python values, exceptions and the library the code runs on\<close>

text \<open>
  The entity classes of \<^verbatim>\<open>utils.py\<close> and \<^verbatim>\<open>Farmbot.py\<close>. The classes of the other
  modules (\<^verbatim>\<open>OpenFarm.py\<close>, \<^verbatim>\<open>Weather.py\<close>, \<^verbatim>\<open>MLH.py\<close>) are further subclasses of
  \<^verbatim>\<open>Entity\<close>; none of them is a subclass of \<^verbatim>\<open>Point\<close>.
\<close>

datatype cls =
    Entity | Identifiable | Coordinate | Device | Tool | Point | Plant | ToolSlot
  | Command | Sequence | LocationData | InformationalSettings | Pin | ProcessInfo
  | Alert | BotStateTree

text \<open>
  Dynamically typed values. A float is the real number it denotes (rounding, infinities and
  NaN are outside the model); a \<^verbatim>\<open>datetime\<close> is its distance in microseconds from
  0001-01-01T00:00:00, a \<^verbatim>\<open>date\<close> its distance in days from 0001-01-01; a \<^verbatim>\<open>dict\<close> is an
  insertion-ordered association list; an entity instance is its class and its
  \<^verbatim>\<open>__dict__\<close>. Strings are lists of ASCII characters.
\<close>

datatype pyval =
    PNone
  | PBool bool
  | PInt int
  | PFloat real
  | PStr string
  | PDatetime int
  | PDate int
  | PList "pyval list"
  | PDict "(pyval \<times> pyval) list"
  | PObj cls "(pyval \<times> pyval) list"

type_synonym pydict = "(pyval \<times> pyval) list"

datatype exn =
    TypeError | ValueError | KeyError | AttributeError | RecursionError | OverflowError
  | SyntaxError | OSError

definition then_do :: "exn + 'a \<Rightarrow> ('a \<Rightarrow> exn + 'b) \<Rightarrow> exn + 'b" where
  "then_do r f = (case r of Inl e \<Rightarrow> Inl e | Inr x \<Rightarrow> f x)"

text \<open>Truth value testing (\<^verbatim>\<open>if x:\<close>, \<^verbatim>\<open>not x\<close>, \<^verbatim>\<open>x or y\<close>, \<^verbatim>\<open>bool(x)\<close>).\<close>

fun truthy :: "pyval \<Rightarrow> bool" where
  "truthy PNone = False"
| "truthy (PBool b) = b"
| "truthy (PInt i) = (i \<noteq> 0)"
| "truthy (PFloat r) = (r \<noteq> 0)"
| "truthy (PStr s) = (s \<noteq> [])"
| "truthy (PDatetime t) = True"
| "truthy (PDate t) = True"
| "truthy (PList xs) = (xs \<noteq> [])"
| "truthy (PDict d) = (d \<noteq> [])"
| "truthy (PObj c d) = True"

text \<open>Lists and dicts cannot be dictionary keys.\<close>

fun hashable :: "pyval \<Rightarrow> bool" where
  "hashable (PList xs) = False"
| "hashable (PDict d) = False"
| "hashable v = True"

text \<open>
  \<^verbatim>\<open>==\<close> on values (\<^verbatim>\<open>!=\<close> is its negation). Numbers are equal when they denote the
  same number, across \<^verbatim>\<open>bool\<close>, \<^verbatim>\<open>int\<close> and \<^verbatim>\<open>float\<close>; two lists are equal when they
  have the same length and equal items; two dicts are equal when they have as many keys
  and every key of the one has an equal key with an equal value in the other, whatever the
  order of insertion. \<^verbatim>\<open>Entity\<close> defines no \<^verbatim>\<open>__eq__\<close>, so an instance is equal to itself
  only; values carry no identity here, and two instances count as the same object when
  class and \<^verbatim>\<open>__dict__\<close> agree. Values of different kinds are not equal.
\<close>

fun as_number :: "pyval \<Rightarrow> real option" where
  "as_number (PBool b) = Some (if b then 1 else 0)"
| "as_number (PInt i) = Some (real_of_int i)"
| "as_number (PFloat r) = Some r"
| "as_number v = None"

fun py_eq :: "pyval \<Rightarrow> pyval \<Rightarrow> bool" where
  "py_eq (PList xs) (PList ys) = list_all2 py_eq xs ys"
| "py_eq (PDict d) (PDict e) =
     (length d = length e \<and>
      list_all (\<lambda>(k, v). list_ex (\<lambda>(k', v'). py_eq k k' \<and> py_eq v v') e) d)"
| "py_eq a b = (case (as_number a, as_number b) of
                  (Some x, Some y) \<Rightarrow> x = y
                | _ \<Rightarrow> a = b)"

text \<open>
  What the code takes from Python's library and from its surroundings: the clock reading
  of \<^verbatim>\<open>datetime.utcnow()\<close>, the interpreter's recursion limit, \<^verbatim>\<open>ast.literal_eval\<close>,
  the string forms of \<^verbatim>\<open>int\<close> and \<^verbatim>\<open>float\<close>, \<^verbatim>\<open>float\<close> of an \<^verbatim>\<open>int\<close> that needs more
  than 53 bits (it is rounded, or raises \<^verbatim>\<open>OverflowError\<close>), \<^verbatim>\<open>str\<close> of a compound value,
  \<^verbatim>\<open>datetime.utcfromtimestamp\<close>, \<^verbatim>\<open>+=\<close>, \<^verbatim>\<open>json.dumps\<close> and the \<^verbatim>\<open>__name__\<close> of a
  type of the \<^verbatim>\<open>typing\<close> module (which older interpreters do not have).
\<close>

record env =
  now :: int
  recursion_limit :: nat
  literal_eval :: "string \<Rightarrow> exn + pyval"
  int_of_str :: "string \<Rightarrow> exn + int"
  float_of_str :: "string \<Rightarrow> exn + real"
  float_of_int :: "int \<Rightarrow> exn + real"
  repr :: "pyval \<Rightarrow> string"
  utcfromtimestamp :: "real \<Rightarrow> exn + int"
  iadd :: "pyval \<Rightarrow> pyval \<Rightarrow> exn + pyval"
  json_dumps :: "pyval \<Rightarrow> exn + string"
  typing_name :: "string \<Rightarrow> exn + string"

definition py_int :: "env \<Rightarrow> pyval \<Rightarrow> exn + pyval" where
  "py_int E v = (case v of
       PInt i \<Rightarrow> Inr (PInt i)
     | PBool b \<Rightarrow> Inr (PInt (if b then 1 else 0))
     | PFloat r \<Rightarrow> Inr (PInt (if r < 0 then - \<lfloor>- r\<rfloor> else \<lfloor>r\<rfloor>))
     | PStr s \<Rightarrow> then_do (int_of_str E s) (\<lambda>i. Inr (PInt i))
     | _ \<Rightarrow> Inl TypeError)"

text \<open>
  \<^verbatim>\<open>float(v)\<close>: an \<^verbatim>\<open>int\<close> of absolute value up to 2^53 is a float as it is, a larger
  one is what the library makes of it.
\<close>

definition py_float :: "env \<Rightarrow> pyval \<Rightarrow> exn + real" where
  "py_float E v = (case v of
       PInt i \<Rightarrow> (if \<bar>i\<bar> \<le> 9007199254740992 then Inr (real_of_int i)
                  else float_of_int E i)
     | PBool b \<Rightarrow> Inr (if b then 1 else 0)
     | PFloat r \<Rightarrow> Inr r
     | PStr s \<Rightarrow> float_of_str E s
     | _ \<Rightarrow> Inl TypeError)"

definition py_str :: "env \<Rightarrow> pyval \<Rightarrow> string" where
  "py_str E v = (case v of
       PStr s \<Rightarrow> s
     | PNone \<Rightarrow> ''None''
     | PBool b \<Rightarrow> (if b then ''True'' else ''False'')
     | _ \<Rightarrow> repr E v)"

section \<open>Strings and regular expressions\<close>

definition is_space :: "char \<Rightarrow> bool" where
  "is_space c = (of_char c \<in> {9, 10, 11, 12, 13, 28, 29, 30, 31, 32 :: nat})"

definition strip :: "string \<Rightarrow> string" where
  "strip s = rev (dropWhile is_space (rev (dropWhile is_space s)))"

definition lower_char :: "char \<Rightarrow> char" where
  "lower_char c = (case map_of (zip ''ABCDEFGHIJKLMNOPQRSTUVWXYZ''
                                    ''abcdefghijklmnopqrstuvwxyz'') c of
                     Some l \<Rightarrow> l | None \<Rightarrow> c)"

definition lower :: "string \<Rightarrow> string" where
  "lower s = map lower_char s"

text \<open>\<^verbatim>\<open>re.sub('\\s+', ' ', s)\<close>: every maximal run of whitespace becomes one blank.\<close>

fun collapse_from :: "bool \<Rightarrow> string \<Rightarrow> string" where
  "collapse_from in_run [] = []"
| "collapse_from in_run (c # s) =
     (if is_space c then (if in_run then collapse_from True s
                          else CHR '' '' # collapse_from True s)
      else c # collapse_from False s)"

definition collapse_ws :: "string \<Rightarrow> string" where
  "collapse_ws s = collapse_from False s"

text \<open>
  Regular expressions as \<^verbatim>\<open>re\<close> runs them: a backtracking matcher that lists, in the order
  the engine tries them, the states (rest of the input, groups captured so far) reachable
  by matching a prefix. Alternatives are tried left to right, \<^verbatim>\<open>?\<close> and \<^verbatim>\<open>+\<close> are greedy.
\<close>

datatype rx =
    Lit string
  | Cls "char \<Rightarrow> bool"
  | Seq rx rx
  | Alt rx rx
  | Opt rx
  | Plus rx
  | Group nat rx

type_synonym mstate = "string \<times> (nat \<times> string) list"

fun plus_iter :: "nat \<Rightarrow> (mstate \<Rightarrow> mstate list) \<Rightarrow> mstate \<Rightarrow> mstate list" where
  "plus_iter 0 step st = step st"
| "plus_iter (Suc n) step st =
     concat (map (\<lambda>st'. (if length (fst st') < length (fst st)
                           then plus_iter n step st' else []) @ [st'])
                 (step st))"

fun rx_run :: "rx \<Rightarrow> mstate \<Rightarrow> mstate list" where
  "rx_run (Lit l) st =
     (if take (length l) (fst st) = l then [(drop (length l) (fst st), snd st)] else [])"
| "rx_run (Cls p) st =
     (case fst st of [] \<Rightarrow> [] | c # r \<Rightarrow> if p c then [(r, snd st)] else [])"
| "rx_run (Seq a b) st = concat (map (rx_run b) (rx_run a st))"
| "rx_run (Alt a b) st = rx_run a st @ rx_run b st"
| "rx_run (Opt a) st = rx_run a st @ [st]"
| "rx_run (Plus a) st = plus_iter (length (fst st)) (rx_run a) st"
| "rx_run (Group i a) st =
     map (\<lambda>st'. (fst st',
                  AList.update i (take (length (fst st) - length (fst st')) (fst st)) (snd st')))
         (rx_run a st)"

definition seqs :: "rx list \<Rightarrow> rx" where
  "seqs rs = foldr Seq rs (Lit [])"

definition alts :: "rx \<Rightarrow> rx list \<Rightarrow> rx" where
  "alts r rs = foldl Alt r rs"

text \<open>\<^verbatim>\<open>pattern.fullmatch(s)\<close>: the first way to match that uses up the input.\<close>

definition fullmatch :: "rx \<Rightarrow> string \<Rightarrow> (nat \<times> string) list option" where
  "fullmatch r s = map_option snd (find (\<lambda>st. fst st = []) (rx_run r (s, [])))"

text \<open>\<^verbatim>\<open>re.match(pattern, s)\<close>: the first way to match a prefix.\<close>

definition prefixmatch :: "rx \<Rightarrow> string \<Rightarrow> mstate option" where
  "prefixmatch r s = (case rx_run r (s, []) of [] \<Rightarrow> None | st # _ \<Rightarrow> Some st)"

definition is_digit :: "char \<Rightarrow> bool" where
  "is_digit c = (48 \<le> (of_char c :: nat) \<and> (of_char c :: nat) \<le> 57)"

definition is_lower :: "char \<Rightarrow> bool" where
  "is_lower c = (97 \<le> (of_char c :: nat) \<and> (of_char c :: nat) \<le> 122)"

definition in_range :: "char \<Rightarrow> char \<Rightarrow> char \<Rightarrow> bool" where
  "in_range lo hi c = ((of_char lo :: nat) \<le> of_char c \<and> (of_char c :: nat) \<le> of_char hi)"

definition one_of :: "string \<Rightarrow> char \<Rightarrow> bool" where
  "one_of cs c = (c \<in> set cs)"

text \<open>The number a string of decimal digits denotes.\<close>

definition digits_value :: "string \<Rightarrow> nat" where
  "digits_value s = foldl (\<lambda>n c. 10 * n + (of_char c - 48)) 0 s"

text \<open>
  \<^verbatim>\<open>int(s)\<close> for a string of decimal digits. An interpreter can limit the number of
  digits \<^verbatim>\<open>int\<close> takes from a string (\<^verbatim>\<open>sys.set_int_max_str_digits\<close>, 4300 unless set
  otherwise) and raises \<^verbatim>\<open>ValueError\<close> beyond the limit, but no limit can be set below
  640 digits; a longer string is left to the library.
\<close>

definition int_of_digits :: "env \<Rightarrow> string \<Rightarrow> exn + int" where
  "int_of_digits E s =
     (if length s \<le> 640 then Inr (int (digits_value s)) else int_of_str E s)"

section \<open>Dates and times\<close>

text \<open>
  The proleptic Gregorian calendar of Python's \<^verbatim>\<open>datetime\<close> module
  (\<^verbatim>\<open>_is_leap\<close>, \<^verbatim>\<open>_days_before_year\<close>, \<^verbatim>\<open>_days_in_month\<close>, \<^verbatim>\<open>_days_before_month\<close>,
  \<^verbatim>\<open>_ymd2ord\<close>, \<^verbatim>\<open>_ord2ymd\<close>); day 1 is 0001-01-01.
\<close>

definition is_leap :: "nat \<Rightarrow> bool" where
  "is_leap year = (year mod 4 = 0 \<and> (year mod 100 \<noteq> 0 \<or> year mod 400 = 0))"

definition days_before_year :: "nat \<Rightarrow> nat" where
  "days_before_year year = (let y = year - 1 in y * 365 + y div 4 - y div 100 + y div 400)"

definition DAYS_IN_MONTH :: "nat list" where
  "DAYS_IN_MONTH = [0, 31, 28, 31, 30, 31, 30, 31, 31, 30, 31, 30, 31]"

definition DAYS_BEFORE_MONTH :: "nat list" where
  "DAYS_BEFORE_MONTH = [0, 0, 31, 59, 90, 120, 151, 181, 212, 243, 273, 304, 334]"

definition days_in_month :: "nat \<Rightarrow> nat \<Rightarrow> nat" where
  "days_in_month year month =
     (if month = 2 \<and> is_leap year then 29 else DAYS_IN_MONTH ! month)"

definition days_before_month :: "nat \<Rightarrow> nat \<Rightarrow> nat" where
  "days_before_month year month =
     DAYS_BEFORE_MONTH ! month + (if month > 2 \<and> is_leap year then 1 else 0)"

definition ymd2ord :: "nat \<Rightarrow> nat \<Rightarrow> nat \<Rightarrow> nat" where
  "ymd2ord year month day = days_before_year year + days_before_month year month + day"

definition ord2ymd :: "nat \<Rightarrow> nat \<times> nat \<times> nat" where
  "ord2ymd ordinal =
     (let n0 = ordinal - 1;
          n400 = n0 div 146097; na = n0 mod 146097;
          n100 = na div 36524; nb = na mod 36524;
          n4 = nb div 1461; nc = nb mod 1461;
          n1 = nc div 365; n = nc mod 365;
          year = n400 * 400 + 1 + n100 * 100 + n4 * 4 + n1
      in if n1 = 4 \<or> n100 = 4 then (year - 1, 12, 31)
         else
           let leapyear = (n1 = 3 \<and> (n4 \<noteq> 24 \<or> n100 = 3));
               month = (n + 50) div 32;
               preceding = DAYS_BEFORE_MONTH ! month + (if month > 2 \<and> leapyear then 1 else 0)
           in if preceding > n
              then (let month' = month - 1;
                        preceding' = preceding
                          - (DAYS_IN_MONTH ! month' + (if month' = 2 \<and> leapyear then 1 else 0))
                    in (year, month', n - preceding' + 1))
              else (year, month, n - preceding + 1))"

definition US_PER_DAY :: int where
  "US_PER_DAY = 86400000000"

definition MAXORDINAL :: int where
  "MAXORDINAL = 3652059"

text \<open>
  The constructor \<^verbatim>\<open>datetime(year, month, day, hour, minute, second, microsecond)\<close>,
  which raises \<^verbatim>\<open>ValueError\<close> on a field out of range.
\<close>

definition datetime_of :: "nat \<Rightarrow> nat \<Rightarrow> nat \<Rightarrow> nat \<Rightarrow> nat \<Rightarrow> nat \<Rightarrow> nat \<Rightarrow> exn + int" where
  "datetime_of year month day hour minute second us =
     (if 1 \<le> year \<and> year \<le> 9999 \<and> 1 \<le> month \<and> month \<le> 12
         \<and> 1 \<le> day \<and> day \<le> days_in_month year month
         \<and> hour \<le> 23 \<and> minute \<le> 59 \<and> second \<le> 59 \<and> us \<le> 999999
      then Inr ((int (ymd2ord year month day) - 1) * US_PER_DAY
                + int (((hour * 60 + minute) * 60 + second) * 1000000 + us))
      else Inl ValueError)"

text \<open>
  \<^verbatim>\<open>timedelta(**{unit: n})\<close> as a number of microseconds. \<^verbatim>\<open>years\<close> is not a keyword of
  \<^verbatim>\<open>timedelta\<close> (a \<^verbatim>\<open>TypeError\<close>), and more than 999999999 days overflow.
\<close>

definition timedelta_units :: "(string \<times> int) list" where
  "timedelta_units =
     [(''weeks'', 7 * 86400000000), (''days'', 86400000000), (''hours'', 3600000000),
      (''minutes'', 60000000), (''seconds'', 1000000), (''milliseconds'', 1000),
      (''microseconds'', 1)]"

definition timedelta :: "string \<Rightarrow> int \<Rightarrow> exn + int" where
  "timedelta unit n =
     (case map_of timedelta_units unit of
        None \<Rightarrow> Inl TypeError
      | Some us \<Rightarrow>
          (if - 999999999 \<le> (n * us) div US_PER_DAY \<and> (n * us) div US_PER_DAY \<le> 999999999
           then Inr (n * us) else Inl OverflowError))"

text \<open>\<^verbatim>\<open>datetime + timedelta\<close> and \<^verbatim>\<open>date + timedelta\<close> (the latter adds whole days).\<close>

definition datetime_add :: "int \<Rightarrow> int \<Rightarrow> exn + int" where
  "datetime_add t off =
     (if 0 \<le> t + off \<and> t + off < MAXORDINAL * US_PER_DAY then Inr (t + off)
      else Inl OverflowError)"

definition date_add :: "int \<Rightarrow> int \<Rightarrow> exn + int" where
  "date_add d off =
     (if 0 \<le> d + off div US_PER_DAY \<and> d + off div US_PER_DAY < MAXORDINAL
      then Inr (d + off div US_PER_DAY) else Inl OverflowError)"

text \<open>
  \<^verbatim>\<open>datetime.strptime(s, "%Y-%m-%dT%H:%M:%S.%fZ")\<close> and
  \<^verbatim>\<open>datetime.strptime(s, "%Y-%m-%d")\<close>. \<^verbatim>\<open>_strptime\<close> turns the format into the regular
  expression below (each directive a named group, matched ignoring case with
  \<^verbatim>\<open>re.match\<close>), refuses input with text left over, and builds the datetime from the groups.
\<close>

definition rx_d :: rx where
  "rx_d = Cls is_digit"

definition rx_Y :: rx where
  "rx_Y = seqs [rx_d, rx_d, rx_d, rx_d]"

definition rx_m :: rx where
  "rx_m = alts (Seq (Lit ''1'') (Cls (in_range CHR ''0'' CHR ''2'')))
               [Seq (Lit ''0'') (Cls (in_range CHR ''1'' CHR ''9'')),
                Cls (in_range CHR ''1'' CHR ''9'')]"

definition rx_day :: rx where
  "rx_day = alts (Seq (Lit ''3'') (Cls (in_range CHR ''0'' CHR ''1'')))
                 [Seq (Cls (in_range CHR ''1'' CHR ''2'')) rx_d,
                  Seq (Lit ''0'') (Cls (in_range CHR ''1'' CHR ''9'')),
                  Cls (in_range CHR ''1'' CHR ''9''),
                  Seq (Lit '' '') (Cls (in_range CHR ''1'' CHR ''9''))]"

definition rx_H :: rx where
  "rx_H = alts (Seq (Lit ''2'') (Cls (in_range CHR ''0'' CHR ''3'')))
               [Seq (Cls (in_range CHR ''0'' CHR ''1'')) rx_d, rx_d]"

definition rx_M :: rx where
  "rx_M = alts (Seq (Cls (in_range CHR ''0'' CHR ''5'')) rx_d) [rx_d]"

definition rx_S :: rx where
  "rx_S = alts (Seq (Lit ''6'') (Cls (in_range CHR ''0'' CHR ''1'')))
               [Seq (Cls (in_range CHR ''0'' CHR ''5'')) rx_d, rx_d]"

definition rx_f :: rx where
  "rx_f = Seq rx_d (Opt (Seq rx_d (Opt (Seq rx_d (Opt (Seq rx_d
                 (Opt (Seq rx_d (Opt rx_d)))))))))"

definition datetime_format_rx :: rx where
  "datetime_format_rx =
     seqs [Group 1 rx_Y, Lit ''-'', Group 2 rx_m, Lit ''-'', Group 3 rx_day,
           Cls (one_of ''Tt''), Group 4 rx_H, Lit '':'', Group 5 rx_M, Lit '':'',
           Group 6 rx_S, Lit ''.'', Group 7 rx_f, Cls (one_of ''Zz'')]"

definition date_format_rx :: rx where
  "date_format_rx = seqs [Group 1 rx_Y, Lit ''-'', Group 2 rx_m, Lit ''-'', Group 3 rx_day]"

definition group :: "(nat \<times> string) list \<Rightarrow> nat \<Rightarrow> string" where
  "group g i = (case map_of g i of Some s \<Rightarrow> s | None \<Rightarrow> [])"

definition field_value :: "string \<Rightarrow> nat" where
  "field_value s = digits_value (filter is_digit s)"

definition strptime_datetime :: "string \<Rightarrow> exn + int" where
  "strptime_datetime s =
     (case prefixmatch datetime_format_rx s of
        None \<Rightarrow> Inl ValueError
      | Some (rest, g) \<Rightarrow>
          (if rest \<noteq> [] then Inl ValueError
           else datetime_of (field_value (group g 1)) (field_value (group g 2))
                  (field_value (group g 3)) (field_value (group g 4))
                  (field_value (group g 5)) (field_value (group g 6))
                  (digits_value (group g 7 @ drop (length (group g 7)) ''000000''))))"

definition strptime_date :: "string \<Rightarrow> exn + int" where
  "strptime_date s =
     (case prefixmatch date_format_rx s of
        None \<Rightarrow> Inl ValueError
      | Some (rest, g) \<Rightarrow>
          (if rest \<noteq> [] then Inl ValueError
           else then_do (datetime_of (field_value (group g 1)) (field_value (group g 2))
                           (field_value (group g 3)) 0 0 0 0)
                  (\<lambda>t. Inr (t div US_PER_DAY))))"

text \<open>
  \<^verbatim>\<open>val.strftime("%Y-%m-%dT%H:%M:%S.%fZ")\<close> and \<^verbatim>\<open>val.strftime("%Y-%m-%d")\<close>: two digits
  for each field, six for the microseconds, and the year as the C library of Linux prints
  it, without leading zeros.
\<close>

definition digit_char :: "nat \<Rightarrow> char" where
  "digit_char n = ''0123456789'' ! (n mod 10)"

definition pad2 :: "nat \<Rightarrow> string" where
  "pad2 n = [digit_char (n div 10), digit_char n]"

definition pad6 :: "nat \<Rightarrow> string" where
  "pad6 n = [digit_char (n div 100000), digit_char (n div 10000), digit_char (n div 1000),
             digit_char (n div 100), digit_char (n div 10), digit_char n]"

definition year_str :: "nat \<Rightarrow> string" where
  "year_str y = dropWhile (\<lambda>c. c = CHR ''0'')
                  [digit_char (y div 1000), digit_char (y div 100), digit_char (y div 10)]
                @ [digit_char y]"

definition strftime_date :: "int \<Rightarrow> string" where
  "strftime_date d =
     (case ord2ymd (nat d + 1) of
        (y, m, dd) \<Rightarrow> year_str y @ ''-'' @ pad2 m @ ''-'' @ pad2 dd)"

definition strftime_datetime :: "int \<Rightarrow> string" where
  "strftime_datetime t =
     (let secs = nat ((t mod US_PER_DAY) div 1000000); us = nat (t mod 1000000)
      in strftime_date (t div US_PER_DAY) @ ''T'' @ pad2 (secs div 3600) @ '':''
         @ pad2 (secs div 60 mod 60) @ '':'' @ pad2 (secs mod 60) @ ''.'' @ pad6 us @ ''Z'')"

section \<open>utils.py: offsets, instants and their text form\<close>

text \<open>
  \<^verbatim>\<open>parse_offset\<close>: \<^verbatim>\<open>None\<close> when the text is no offset. The unit captured by the pattern,
  with an \<^verbatim>\<open>s\<close> appended, is the keyword handed to \<^verbatim>\<open>timedelta\<close>.
\<close>

definition unit_rx :: "bool \<Rightarrow> rx" where
  "unit_rx days =
     (if days then alts (Lit ''year'') [Lit ''week'', Lit ''day'']
      else alts (Lit ''year'') [Lit ''week'', Lit ''day'', Lit ''hour'', Lit ''minute'',
                                Lit ''second''])"

definition in_rx :: "bool \<Rightarrow> rx" where
  "in_rx days = seqs [Lit ''in '', Group 1 (Plus (Cls is_digit)), Lit '' '',
                      Group 2 (unit_rx days), Opt (Lit ''s'')]"

definition ago_rx :: "bool \<Rightarrow> rx" where
  "ago_rx days = seqs [Group 1 (Plus (Cls is_digit)), Lit '' '', Group 2 (unit_rx days),
                       Opt (Lit ''s''), Lit '' ago'']"

definition parse_offset :: "env \<Rightarrow> pyval \<Rightarrow> bool \<Rightarrow> exn + int option" where
  "parse_offset E offset days =
     (if truthy offset then
        (case offset of
           PStr s \<Rightarrow>
             (let offset' = collapse_ws (lower (strip s)) in
              if days \<and> offset' = ''today'' then Inr (Some 0)
              else if days \<and> offset' = ''yesterday'' then Inr (Some (- US_PER_DAY))
              else if days \<and> offset' = ''tomorrow'' then Inr (Some US_PER_DAY)
              else if \<not> days \<and> offset' = ''now'' then Inr (Some 0)
              else
                (case fullmatch (in_rx days) offset' of
                   Some g \<Rightarrow> then_do (int_of_digits E (group g 1)) (\<lambda>n.
                             then_do (timedelta (group g 2 @ ''s'') n) (\<lambda>d. Inr (Some d)))
                 | None \<Rightarrow>
                     (case fullmatch (ago_rx days) offset' of
                        Some g \<Rightarrow> then_do (int_of_digits E (group g 1)) (\<lambda>n.
                                  then_do (timedelta (group g 2 @ ''s'') (- n))
                                    (\<lambda>d. Inr (Some d)))
                      | None \<Rightarrow> Inr None)))
         | _ \<Rightarrow> Inl AttributeError)
      else Inr None)"

text \<open>The number handed to \<^verbatim>\<open>utcfromtimestamp\<close>: seconds, or milliseconds from 10^10 on.\<close>

definition timestamp_arg :: "real \<Rightarrow> real" where
  "timestamp_arg x = (if x < 10000000000 then x else x / 1000)"

text \<open>
  \<^verbatim>\<open>parse_datetime(val, default)\<close> (the default is called dflt here). A \<^verbatim>\<open>timedelta\<close> of zero is false, so \<^verbatim>\<open>if offset:\<close>
  is taken only by an offset that is not zero.
\<close>

definition parse_datetime :: "env \<Rightarrow> pyval \<Rightarrow> pyval \<Rightarrow> exn + pyval" where
  "parse_datetime E val dflt =
     (if \<not> truthy val then Inr dflt
      else case val of
        PDatetime t \<Rightarrow> Inr val
      | PInt i \<Rightarrow> then_do (utcfromtimestamp E (timestamp_arg (real_of_int i)))
                    (\<lambda>t. Inr (PDatetime t))
      | PBool b \<Rightarrow> then_do (utcfromtimestamp E (timestamp_arg (if b then 1 else 0)))
                     (\<lambda>t. Inr (PDatetime t))
      | PFloat r \<Rightarrow> then_do (utcfromtimestamp E (timestamp_arg r)) (\<lambda>t. Inr (PDatetime t))
      | _ \<Rightarrow>
          then_do (parse_offset E val False) (\<lambda>offset.
            (case offset of
               Some off \<Rightarrow>
                 (if off \<noteq> 0 then then_do (datetime_add (now E) off) (\<lambda>t. Inr (PDatetime t))
                  else (case val of
                          PStr s \<Rightarrow> then_do (strptime_datetime (strip s))
                                      (\<lambda>t. Inr (PDatetime t))
                        | _ \<Rightarrow> Inl AttributeError))
             | None \<Rightarrow>
                 (case val of
                    PStr s \<Rightarrow> then_do (strptime_datetime (strip s)) (\<lambda>t. Inr (PDatetime t))
                  | _ \<Rightarrow> Inl AttributeError))))"

definition parse_date :: "env \<Rightarrow> pyval \<Rightarrow> pyval \<Rightarrow> exn + pyval" where
  "parse_date E val dflt =
     (if \<not> truthy val then Inr dflt
      else case val of
        PDate d \<Rightarrow> Inr val
      | PDatetime t \<Rightarrow> Inr val
      | PInt i \<Rightarrow> then_do (utcfromtimestamp E (timestamp_arg (real_of_int i)))
                    (\<lambda>t. Inr (PDate (t div US_PER_DAY)))
      | PBool b \<Rightarrow> then_do (utcfromtimestamp E (timestamp_arg (if b then 1 else 0)))
                     (\<lambda>t. Inr (PDate (t div US_PER_DAY)))
      | PFloat r \<Rightarrow> then_do (utcfromtimestamp E (timestamp_arg r))
                      (\<lambda>t. Inr (PDate (t div US_PER_DAY)))
      | _ \<Rightarrow>
          then_do (parse_offset E val True) (\<lambda>offset.
            (case offset of
               Some off \<Rightarrow>
                 (if off \<noteq> 0 then then_do (date_add (now E div US_PER_DAY) off)
                                    (\<lambda>d. Inr (PDate d))
                  else (case val of
                          PStr s \<Rightarrow> then_do (strptime_date (strip s)) (\<lambda>d. Inr (PDate d))
                        | _ \<Rightarrow> Inl AttributeError))
             | None \<Rightarrow>
                 (case val of
                    PStr s \<Rightarrow> then_do (strptime_date (strip s)) (\<lambda>d. Inr (PDate d))
                  | _ \<Rightarrow> Inl AttributeError))))"

text \<open>\<^verbatim>\<open>dump_datetime(val)\<close>: \<^verbatim>\<open>None\<close> for a false value, else \<^verbatim>\<open>val.strftime(...)\<close>.\<close>

definition dump_datetime :: "pyval \<Rightarrow> exn + pyval" where
  "dump_datetime val =
     (if truthy val then
        (case val of
           PDatetime t \<Rightarrow> Inr (PStr (strftime_datetime t))
         | PDate d \<Rightarrow> Inr (PStr (strftime_datetime (d * US_PER_DAY)))
         | _ \<Rightarrow> Inl AttributeError)
      else Inr PNone)"

section \<open>Schemas: the classes, their annotations and their shapes\<close>

text \<open>
  A shape descriptor is the type a field is annotated with. \<^verbatim>\<open>Optional[t]\<close> is
  \<^verbatim>\<open>Union[t, None]\<close>; \<open>TUnsupported\<close> stands for any other type (\<^verbatim>\<open>Tuple\<close>, \<^verbatim>\<open>set\<close>, ...).
\<close>

datatype ty =
    TAny | TBool | TStr | TInt | TFloat | TDate | TDatetime | TNoneType
  | TUnion "ty list"
  | TList ty
  | TDict ty ty
  | TClass cls
  | TUnsupported

definition Optional :: "ty \<Rightarrow> ty" where
  "Optional t = TUnion [t, TNoneType]"

fun cls_name :: "cls \<Rightarrow> string" where
  "cls_name Entity = ''Entity''"
| "cls_name Identifiable = ''Identifiable''"
| "cls_name Coordinate = ''Coordinate''"
| "cls_name Device = ''Device''"
| "cls_name Tool = ''Tool''"
| "cls_name Point = ''Point''"
| "cls_name Plant = ''Plant''"
| "cls_name ToolSlot = ''ToolSlot''"
| "cls_name Command = ''Command''"
| "cls_name Sequence = ''Sequence''"
| "cls_name LocationData = ''LocationData''"
| "cls_name InformationalSettings = ''InformationalSettings''"
| "cls_name Pin = ''Pin''"
| "cls_name ProcessInfo = ''ProcessInfo''"
| "cls_name Alert = ''Alert''"
| "cls_name BotStateTree = ''BotStateTree''"

text \<open>The annotations written in each class body, in the order they are written.\<close>

fun annotations :: "cls \<Rightarrow> (string \<times> ty) list" where
  "annotations Entity = []"
| "annotations Identifiable =
     [(''id'', TInt), (''created_at'', TDatetime), (''updated_at'', TDatetime)]"
| "annotations Coordinate = [(''x'', TInt), (''y'', TInt), (''z'', TInt)]"
| "annotations Device =
     [(''fbos_version'', Optional TStr), (''last_saw_api'', Optional TDatetime),
      (''last_saw_mq'', Optional TDatetime), (''mounted_tool_id'', Optional TInt),
      (''name'', TStr), (''serial_number'', TStr), (''throttled_at'', Optional TDatetime),
      (''throttled_until'', Optional TDatetime)]"
| "annotations Tool = [(''name'', TStr), (''status'', TStr)]"
| "annotations Point =
     [(''device_id'', TInt), (''pointer_type'', TStr), (''name'', TStr),
      (''meta'', TDict TStr TAny), (''radius'', TFloat),
      (''discarded_at'', Optional TDatetime)]"
| "annotations Plant =
     [(''openfarm_slug'', TStr), (''plant_stage'', TStr),
      (''planted_at'', Optional TDatetime)]"
| "annotations ToolSlot = [(''tool_id'', TInt), (''pullout_direction'', Optional TInt)]"
| "annotations Command = [(''kind'', TStr), (''args'', TDict TStr TAny)]"
| "annotations Sequence =
     [(''args'', TDict TStr TAny), (''color'', TStr), (''name'', TStr), (''kind'', TStr),
      (''body'', TList (TClass Command))]"
| "annotations LocationData = [(''position'', TClass Coordinate)]"
| "annotations InformationalSettings =
     [(''busy'', TBool), (''locked'', TBool), (''commit'', TStr),
      (''firmware_commit'', TStr), (''target'', TStr), (''env'', TStr),
      (''node_name'', TStr), (''currently_on_beta'', Optional TBool),
      (''update_available'', Optional TBool), (''memory_usage'', Optional TInt),
      (''disk_usage'', Optional TInt), (''soc_temp'', Optional TInt),
      (''wifi_level'', Optional TInt), (''controller_version'', TStr),
      (''firmware_version'', TStr), (''throttled'', TStr), (''private_ip'', TStr),
      (''sync_status'', TStr), (''uptime'', Optional TInt)]"
| "annotations Pin = [(''mode'', TInt), (''value'', TFloat)]"
| "annotations ProcessInfo = [(''farmwares'', TDict TStr (TClass Entity))]"
| "annotations Alert =
     [(''id'', Optional TInt), (''created_at'', TDatetime), (''problem_tag'', TStr),
      (''priority'', TInt), (''slug'', TStr)]"
| "annotations BotStateTree =
     [(''location_data'', TClass LocationData),
      (''informational_settings'', TClass InformationalSettings),
      (''pins'', TDict TInt (TClass Pin)), (''configuration'', TClass Entity),
      (''user_env'', TDict TStr (Optional TStr)), (''jobs'', TDict TStr (Optional TStr)),
      (''process_info'', TClass ProcessInfo),
      (''alerts'', Optional (TDict TStr (TClass Alert)))]"

text \<open>The method resolution order of each class (without \<^verbatim>\<open>object\<close>).\<close>

fun mro :: "cls \<Rightarrow> cls list" where
  "mro Entity = [Entity]"
| "mro Identifiable = [Identifiable, Entity]"
| "mro Coordinate = [Coordinate, Entity]"
| "mro Device = [Device, Identifiable, Entity]"
| "mro Tool = [Tool, Identifiable, Entity]"
| "mro Point = [Point, Identifiable, Coordinate, Entity]"
| "mro Plant = [Plant, Point, Identifiable, Coordinate, Entity]"
| "mro ToolSlot = [ToolSlot, Point, Identifiable, Coordinate, Entity]"
| "mro Sequence = [Sequence, Identifiable, Entity]"
| "mro c = [c, Entity]"

text \<open>\<^verbatim>\<open>cls.__subclasses__()\<close>: the direct subclasses, in the order of their definition.\<close>

fun subclasses :: "cls \<Rightarrow> cls list" where
  "subclasses Entity =
     [Identifiable, Coordinate, Command, LocationData, InformationalSettings, Pin,
      ProcessInfo, Alert, BotStateTree]"
| "subclasses Identifiable = [Device, Tool, Point, Sequence]"
| "subclasses Coordinate = [Point]"
| "subclasses Point = [Plant, ToolSlot]"
| "subclasses c = []"

text \<open>
  \<^verbatim>\<open>typing.get_type_hints(cls)\<close> merges the annotations along the reversed method
  resolution order; a name annotated again keeps its place and takes the later type.
\<close>

definition get_type_hints :: "cls \<Rightarrow> (string \<times> ty) list" where
  "get_type_hints c =
     foldl (\<lambda>hints (name, t). AList.update name t hints) []
           (concat (map annotations (rev (mro c))))"

section \<open>utils.py: the factory registry\<close>

text \<open>
  The conversion functions \<^verbatim>\<open>get_factory\<close> hands out, one constructor for each function
  object the code can create: the seven entries of the table \<^verbatim>\<open>factories\<close>, the two
  lambdas of the \<^verbatim>\<open>Union\<close> branch, the lambdas of the list and dict branches (which hold
  the factories of their items in variables of their own) and the bound method
  \<^verbatim>\<open>EntityFactory(cls).make\<close>.

  The first lambda of the \<^verbatim>\<open>Union\<close> branch is
  \<^verbatim>\<open>lambda val: None if val in (None, 'None') else factory(val)\<close>, and the statement
  that creates it assigns it to the variable \<^verbatim>\<open>factory\<close> it refers to. A Python closure
  reads a variable of the enclosing function when it is called, so \<^verbatim>\<open>factory(val)\<close> in its
  body calls the lambda itself; the factory of the inner shape is no longer reachable.
  \<open>FNullable\<close> is that lambda.
\<close>

datatype factory =
    FAny | FBool | FStr | FInt | FFloat | FDate | FDatetime
  | FNullable
  | FNone
  | FList factory
  | FDict factory factory
  | FMake cls

text \<open>
  \<^verbatim>\<open>get_factory(expected_type)\<close>, which raises \<^verbatim>\<open>TypeError\<close> for a shape it does not
  support. The table \<^verbatim>\<open>factories\<close> only caches what this function computes, so the cache
  is left out. \<open>union_args\<close> is the loop over \<^verbatim>\<open>expected_type.__args__\<close> with its two
  variables \<^verbatim>\<open>nullable\<close> and \<^verbatim>\<open>factory\<close>.
\<close>

fun get_factory :: "ty \<Rightarrow> exn + factory"
  and union_args :: "ty list \<Rightarrow> bool \<Rightarrow> factory option \<Rightarrow> exn + (bool \<times> factory option)"
where
  "get_factory TAny = Inr FAny"
| "get_factory TBool = Inr FBool"
| "get_factory TStr = Inr FStr"
| "get_factory TInt = Inr FInt"
| "get_factory TFloat = Inr FFloat"
| "get_factory TDate = Inr FDate"
| "get_factory TDatetime = Inr FDatetime"
| "get_factory (TUnion args) =
     (case union_args args False None of
        Inl e \<Rightarrow> Inl e
      | Inr (nullable, factory) \<Rightarrow>
          (if nullable then (case factory of Some f \<Rightarrow> Inr FNullable | None \<Rightarrow> Inr FNone)
           else (case factory of Some f \<Rightarrow> Inr f | None \<Rightarrow> Inl TypeError)))"
| "get_factory (TList item_type) =
     (case get_factory item_type of
        Inl e \<Rightarrow> Inl e
      | Inr item_factory \<Rightarrow> Inr (FList item_factory))"
| "get_factory (TDict key_type value_type) =
     (case get_factory key_type of
        Inl e \<Rightarrow> Inl e
      | Inr key_factory \<Rightarrow>
          (case get_factory value_type of
             Inl e \<Rightarrow> Inl e
           | Inr value_factory \<Rightarrow> Inr (FDict key_factory value_factory)))"
| "get_factory (TClass c) = Inr (FMake c)"
| "get_factory TNoneType = Inl TypeError"
| "get_factory TUnsupported = Inl TypeError"
| "union_args [] nullable factory = Inr (nullable, factory)"
| "union_args (t # ts) nullable factory =
     (if t = TNoneType then union_args ts True factory
      else (case factory of
              None \<Rightarrow> (case get_factory t of
                          Inl e \<Rightarrow> Inl e
                        | Inr f \<Rightarrow> union_args ts nullable (Some f))
            | Some f \<Rightarrow> Inl TypeError))"

text \<open>\<^verbatim>\<open>EntityFactory.get_props\<close>: the factory of every annotated field, by name.\<close>

fun resolve_props :: "(string \<times> ty) list \<Rightarrow> exn + (string \<times> factory) list" where
  "resolve_props [] = Inr []"
| "resolve_props ((name, t) # hints) =
     (case get_factory t of
        Inl e \<Rightarrow> Inl e
      | Inr f \<Rightarrow> (case resolve_props hints of
                     Inl e \<Rightarrow> Inl e
                   | Inr props \<Rightarrow> Inr ((name, f) # props)))"

definition get_props :: "cls \<Rightarrow> exn + (string \<times> factory) list" where
  "get_props c = resolve_props (get_type_hints c)"

section \<open>Farmbot.py: the point variants\<close>

text \<open>
  \<^verbatim>\<open>get_point_type\<close> fills the registry \<^verbatim>\<open>__point_types\<close> by a walk over the subclasses of
  \<^verbatim>\<open>Point\<close>: \<^verbatim>\<open>queue.pop()\<close> takes the class appended last, so the queue is kept here with
  that class at its head. The test \<^verbatim>\<open>child not in __point_types\<close> compares a class with
  the names that are the keys and is always true. The walk ends because every class weighs
  more than its subclasses together.
\<close>

fun weight :: "cls \<Rightarrow> nat" where
  "weight Entity = 21"
| "weight Identifiable = 7"
| "weight Coordinate = 4"
| "weight Point = 3"
| "weight c = 1"

function point_types_loop :: "cls list \<Rightarrow> (string \<times> cls) list \<Rightarrow> (string \<times> cls) list" where
  "point_types_loop [] registry = registry"
| "point_types_loop (parent # queue) registry =
     point_types_loop (rev (subclasses parent) @ queue)
       (foldl (\<lambda>r child. AList.update (cls_name child) child r) registry (subclasses parent))"
  by pat_completeness auto
termination
proof (relation "measure (\<lambda>(queue, registry). sum_list (map weight queue))")
  show "wf (measure (\<lambda>(queue, registry). sum_list (map weight queue)))"
    by simp
next
  fix parent :: cls and queue :: "cls list" and registry :: "(string \<times> cls) list"
  have "sum_list (map weight (subclasses parent)) < weight parent"
    by (cases parent) simp_all
  then show "((rev (subclasses parent) @ queue,
               foldl (\<lambda>r child. AList.update (cls_name child) child r) registry
                 (subclasses parent)),
              parent # queue, registry)
             \<in> measure (\<lambda>(queue, registry). sum_list (map weight queue))"
    by (simp add: rev_map [symmetric])
qed

definition point_types :: "(string \<times> cls) list" where
  "point_types = point_types_loop [Point] []"

text \<open>
  \<^verbatim>\<open>__point_types.get(pointer_type) or Point\<close>: a \<^verbatim>\<open>TypeError\<close> for a value that cannot be
  a key; the keys are strings, so no other value finds an entry.
\<close>

definition get_point_type :: "pyval \<Rightarrow> exn + cls" where
  "get_point_type pointer_type =
     (if \<not> hashable pointer_type then Inl TypeError
      else case pointer_type of
        PStr name \<Rightarrow> (case map_of point_types name of Some c \<Rightarrow> Inr c | None \<Rightarrow> Inr Point)
      | _ \<Rightarrow> Inr Point)"

definition get_pointer_type :: "cls \<Rightarrow> string" where
  "get_pointer_type point_type =
     (if point_type = Point then ''GenericPointer'' else cls_name point_type)"

section \<open>Constructing records\<close>

text \<open>Reading and writing an attribute of an instance goes to its \<^verbatim>\<open>__dict__\<close>.\<close>

definition getattr :: "pydict \<Rightarrow> string \<Rightarrow> exn + pyval" where
  "getattr d name = (case map_of d (PStr name) of Some v \<Rightarrow> Inr v | None \<Rightarrow> Inl AttributeError)"

definition setattr :: "pydict \<Rightarrow> string \<Rightarrow> pyval \<Rightarrow> pydict" where
  "setattr d name v = AList.update (PStr name) v d"

definition setdefault :: "pydict \<Rightarrow> string \<Rightarrow> pydict" where
  "setdefault d key = (case map_of d (PStr key) of Some v \<Rightarrow> d | None \<Rightarrow> d @ [(PStr key, PNone)])"

definition kwargs_dict :: "(string \<times> pyval) list \<Rightarrow> pydict" where
  "kwargs_dict kwargs = map (\<lambda>(k, v). (PStr k, v)) kwargs"

text \<open>
  \<^verbatim>\<open>Entity.__new__(cls, __dict__)\<close>: the result is the \<^verbatim>\<open>__dict__\<close> of the new instance.
  A true argument becomes the instance's \<^verbatim>\<open>__dict__\<close> (only a dict can), a false one
  leaves the instance with its own empty one.
\<close>

definition Entity_new :: "cls \<Rightarrow> pyval \<Rightarrow> exn + pydict" where
  "Entity_new c dict_arg =
     then_do (if truthy dict_arg
              then (case dict_arg of PDict d \<Rightarrow> Inr d | _ \<Rightarrow> Inl TypeError)
              else Inr [])
       (\<lambda>d. then_do (get_props c) (\<lambda>props. Inr (foldl setdefault d (map fst props))))"

text \<open>\<^verbatim>\<open>Entity.__init__\<close>: \<^verbatim>\<open>self.__dict__.update(**kwargs)\<close>.\<close>

definition Entity_init :: "pydict \<Rightarrow> (string \<times> pyval) list \<Rightarrow> pydict" where
  "Entity_init d kwargs =
     (if kwargs \<noteq> [] then foldl (\<lambda>d' (k, v). setattr d' k v) d kwargs else d)"

text \<open>\<^verbatim>\<open>Point.__new__\<close>: the class of the new instance and its \<^verbatim>\<open>__dict__\<close>.\<close>

definition Point_new :: "cls \<Rightarrow> pyval \<Rightarrow> (string \<times> pyval) list \<Rightarrow> exn + (cls \<times> pydict)" where
  "Point_new c dict_arg kwargs =
     then_do
       (if c = Point \<and> (truthy dict_arg \<or> kwargs \<noteq> [])
        then (case (if truthy dict_arg then dict_arg else PDict (kwargs_dict kwargs)) of
                PDict d \<Rightarrow> get_point_type (case map_of d (PStr ''pointer_type'') of
                                              Some v \<Rightarrow> v | None \<Rightarrow> PNone)
              | _ \<Rightarrow> Inl AttributeError)
        else Inr c)
       (\<lambda>c'. then_do (Entity_new c' dict_arg) (\<lambda>d. Inr (c', d)))"

text \<open>\<^verbatim>\<open>Point.__init__\<close>, on the \<^verbatim>\<open>__dict__\<close> of an instance of class \<open>c\<close>.\<close>

definition default_if_none :: "string \<Rightarrow> pyval \<Rightarrow> pydict \<Rightarrow> exn + pydict" where
  "default_if_none name v d =
     then_do (getattr d name) (\<lambda>x. Inr (if x = PNone then setattr d name v else d))"

definition Point_init :: "cls \<Rightarrow> pydict \<Rightarrow> (string \<times> pyval) list \<Rightarrow> exn + pydict" where
  "Point_init c d kwargs =
     then_do (getattr (Entity_init d kwargs) ''pointer_type'') (\<lambda>pt.
     then_do (default_if_none ''meta'' (PDict [])
                (if \<not> truthy pt
                 then setattr (Entity_init d kwargs) ''pointer_type'' (PStr (get_pointer_type c))
                 else Entity_init d kwargs)) (\<lambda>d1.
     then_do (default_if_none ''x'' (PInt 0) d1) (\<lambda>d2.
     then_do (default_if_none ''y'' (PInt 0) d2) (\<lambda>d3.
     then_do (default_if_none ''z'' (PInt 0) d3) (\<lambda>d4.
     default_if_none ''radius'' (PFloat 0) d4)))))"

text \<open>
  Calling a class, \<^verbatim>\<open>cls(__dict__, **kwargs)\<close>: \<^verbatim>\<open>__new__\<close>, then \<^verbatim>\<open>__init__\<close> of the
  class of the instance. \<^verbatim>\<open>Point\<close> and its subclasses have the methods of \<^verbatim>\<open>Point\<close>, every
  other class those of \<^verbatim>\<open>Entity\<close>.
\<close>

definition is_point :: "cls \<Rightarrow> bool" where
  "is_point c = (Point \<in> set (mro c))"

definition construct :: "cls \<Rightarrow> pyval \<Rightarrow> (string \<times> pyval) list \<Rightarrow> exn + pyval" where
  "construct c dict_arg kwargs =
     (if is_point c
      then then_do (Point_new c dict_arg kwargs) (\<lambda>(c', d).
           then_do (Point_init c' d kwargs) (\<lambda>d'. Inr (PObj c' d')))
      else then_do (Entity_new c dict_arg) (\<lambda>d. Inr (PObj c (Entity_init d kwargs))))"

section \<open>Converting raw values\<close>

text \<open>\<^verbatim>\<open>ast.literal_eval(val) if isinstance(val, str) else val\<close>\<close>

definition unless_str :: "env \<Rightarrow> pyval \<Rightarrow> exn + pyval" where
  "unless_str E val = (case val of PStr s \<Rightarrow> literal_eval E s | _ \<Rightarrow> Inr val)"

text \<open>Iterating over a value, and \<^verbatim>\<open>val.items()\<close>.\<close>

definition py_iter :: "pyval \<Rightarrow> exn + pyval list" where
  "py_iter v = (case v of
       PList xs \<Rightarrow> Inr xs
     | PDict d \<Rightarrow> Inr (map fst d)
     | PStr s \<Rightarrow> Inr (map (\<lambda>c. PStr [c]) s)
     | _ \<Rightarrow> Inl TypeError)"

definition py_items :: "pyval \<Rightarrow> exn + pydict" where
  "py_items v = (case v of PDict d \<Rightarrow> Inr d | _ \<Rightarrow> Inl AttributeError)"

fun map_exn :: "('a \<Rightarrow> exn + 'b) \<Rightarrow> 'a list \<Rightarrow> exn + 'b list" where
  "map_exn f [] = Inr []"
| "map_exn f (x # xs) =
     (case f x of
        Inl e \<Rightarrow> Inl e
      | Inr y \<Rightarrow> (case map_exn f xs of Inl e \<Rightarrow> Inl e | Inr ys \<Rightarrow> Inr (y # ys)))"

text \<open>The dict comprehension of the dict branch: key first, then value, then the entry.\<close>

fun dict_conv :: "(pyval \<Rightarrow> exn + pyval) \<Rightarrow> (pyval \<Rightarrow> exn + pyval) \<Rightarrow> pydict \<Rightarrow> pydict
                  \<Rightarrow> exn + pydict" where
  "dict_conv kf vf [] acc = Inr acc"
| "dict_conv kf vf ((k, v) # items) acc =
     (case kf k of
        Inl e \<Rightarrow> Inl e
      | Inr k' \<Rightarrow>
          (case vf v of
             Inl e \<Rightarrow> Inl e
           | Inr v' \<Rightarrow> (if hashable k' then dict_conv kf vf items (AList.update k' v' acc)
                        else Inl TypeError)))"

text \<open>
  The loop of \<^verbatim>\<open>EntityFactory.make\<close>: \<^verbatim>\<open>data[key] = factory(data.get(key))\<close> for every
  declared field; \<open>conv\<close> calls a factory. Only a dict has \<^verbatim>\<open>get\<close>.
\<close>

fun make_loop :: "(factory \<Rightarrow> pyval \<Rightarrow> exn + pyval) \<Rightarrow> (string \<times> factory) list \<Rightarrow> pyval
                  \<Rightarrow> exn + pyval" where
  "make_loop conv [] data = Inr data"
| "make_loop conv ((key, f) # props) data =
     (case data of
        PDict d \<Rightarrow>
          (case conv f (case map_of d (PStr key) of Some v \<Rightarrow> v | None \<Rightarrow> PNone) of
             Inl e \<Rightarrow> Inl e
           | Inr v' \<Rightarrow> make_loop conv props (PDict (AList.update (PStr key) v' d)))
      | _ \<Rightarrow> Inl AttributeError)"

text \<open>
  Calling a factory. The first argument is the number of calls the interpreter still
  allows to be nested; when none is left Python raises \<^verbatim>\<open>RecursionError\<close>.
\<close>

primrec call :: "nat \<Rightarrow> env \<Rightarrow> factory \<Rightarrow> pyval \<Rightarrow> exn + pyval" where
  "call 0 E f val = Inl RecursionError"
| "call (Suc depth) E f val =
     (case f of
        FAny \<Rightarrow> Inr val
      | FBool \<Rightarrow> then_do (unless_str E val) (\<lambda>v. Inr (PBool (truthy v)))
      | FStr \<Rightarrow> Inr (PStr (py_str E val))
      | FInt \<Rightarrow> then_do (unless_str E val) (py_int E)
      | FFloat \<Rightarrow> then_do (unless_str E val) (\<lambda>v.
                  then_do (py_float E v) (\<lambda>r. Inr (PFloat r)))
      | FDate \<Rightarrow> parse_date E val PNone
      | FDatetime \<Rightarrow> parse_datetime E val PNone
      | FNullable \<Rightarrow>
          (if val = PNone \<or> val = PStr ''None'' then Inr PNone
           else call depth E FNullable val)
      | FNone \<Rightarrow> Inr PNone
      | FList item_factory \<Rightarrow>
          then_do (unless_str E val) (\<lambda>v.
          then_do (py_iter v) (\<lambda>items.
          then_do (map_exn (call depth E item_factory) items) (\<lambda>xs. Inr (PList xs))))
      | FDict key_factory value_factory \<Rightarrow>
          then_do (unless_str E val) (\<lambda>v.
          then_do (py_items v) (\<lambda>items.
          then_do (dict_conv (call depth E key_factory) (call depth E value_factory) items [])
            (\<lambda>d. Inr (PDict d))))
      | FMake c \<Rightarrow>
          then_do (get_props c) (\<lambda>props.
          then_do (make_loop (call depth E) props val) (\<lambda>data. construct c data [])))"

text \<open>
  What a call leaves of the object it was given. The factories return new values, and
  only \<^verbatim>\<open>make\<close> writes into its argument: \<^verbatim>\<open>data[key] = factory(data.get(key))\<close> puts
  the converted value of each field into the caller's dict, field after field, until a
  factory raises; when all have returned and the class is called, a dict that is not
  empty becomes the \<^verbatim>\<open>__dict__\<close> of the instance and takes what \<^verbatim>\<open>__new__\<close> and
  \<^verbatim>\<open>__init__\<close> write. The comprehensions of the list and dict branches build a new
  container and leave the given one in place, but hand its items to the factory of the
  items, which may be \<^verbatim>\<open>make\<close>. The raw data is taken to be a tree, as \<^verbatim>\<open>json.loads\<close>
  returns it: no dict occurs in it twice.
\<close>

fun items_after :: "(pyval \<Rightarrow> exn + pyval) \<Rightarrow> (pyval \<Rightarrow> pyval) \<Rightarrow> pyval list \<Rightarrow> pyval list" where
  "items_after conv after [] = []"
| "items_after conv after (x # xs) =
     (case conv x of
        Inl e \<Rightarrow> after x # xs
      | Inr y \<Rightarrow> after x # items_after conv after xs)"

fun entries_after :: "(pyval \<Rightarrow> exn + pyval) \<Rightarrow> (pyval \<Rightarrow> exn + pyval) \<Rightarrow> (pyval \<Rightarrow> pyval)
                      \<Rightarrow> pydict \<Rightarrow> pydict" where
  "entries_after kf vf after [] = []"
| "entries_after kf vf after ((k, v) # items) =
     (case kf k of
        Inl e \<Rightarrow> (k, v) # items
      | Inr k' \<Rightarrow>
          (case vf v of
             Inl e \<Rightarrow> (k, after v) # items
           | Inr v' \<Rightarrow> (if hashable k' then (k, after v) # entries_after kf vf after items
                        else (k, after v) # items)))"

fun data_after :: "(factory \<Rightarrow> pyval \<Rightarrow> exn + pyval) \<Rightarrow> (factory \<Rightarrow> pyval \<Rightarrow> pyval)
                   \<Rightarrow> (string \<times> factory) list \<Rightarrow> pydict \<Rightarrow> pydict" where
  "data_after conv after [] d = d"
| "data_after conv after ((key, f) # props) d =
     (case map_of d (PStr key) of
        None \<Rightarrow>
          (case conv f PNone of
             Inl e \<Rightarrow> d
           | Inr v' \<Rightarrow> data_after conv after props (AList.update (PStr key) v' d))
      | Some v \<Rightarrow>
          (case conv f v of
             Inl e \<Rightarrow> AList.update (PStr key) (after f v) d
           | Inr v' \<Rightarrow> data_after conv after props (AList.update (PStr key) v' d)))"

primrec argument_after :: "nat \<Rightarrow> env \<Rightarrow> factory \<Rightarrow> pyval \<Rightarrow> pyval" where
  "argument_after 0 E f val = val"
| "argument_after (Suc depth) E f val =
     (case f of
        FList item_factory \<Rightarrow>
          (case val of
             PList xs \<Rightarrow> PList (items_after (call depth E item_factory)
                                 (argument_after depth E item_factory) xs)
           | _ \<Rightarrow> val)
      | FDict key_factory value_factory \<Rightarrow>
          (case val of
             PDict d \<Rightarrow> PDict (entries_after (call depth E key_factory)
                                (call depth E value_factory)
                                (argument_after depth E value_factory) d)
           | _ \<Rightarrow> val)
      | FMake c \<Rightarrow>
          (case val of
             PDict d \<Rightarrow>
               (case get_props c of
                  Inl e \<Rightarrow> val
                | Inr props \<Rightarrow>
                    (case make_loop (call depth E) props val of
                       Inl e \<Rightarrow> PDict (data_after (call depth E) (argument_after depth E) props d)
                     | Inr data \<Rightarrow>
                         (case construct c data [] of
                            Inr (PObj c' d') \<Rightarrow> (if truthy data then PDict d' else data)
                          | _ \<Rightarrow> data)))
           | _ \<Rightarrow> val)
      | _ \<Rightarrow> val)"

text \<open>A call made with the whole stack available.\<close>

definition convert :: "env \<Rightarrow> factory \<Rightarrow> pyval \<Rightarrow> exn + pyval" where
  "convert E f val = call (recursion_limit E) E f val"

text \<open>What a call made with the whole stack available leaves of its argument.\<close>

definition left_by :: "env \<Rightarrow> factory \<Rightarrow> pyval \<Rightarrow> pyval" where
  "left_by E f val = argument_after (recursion_limit E) E f val"

section \<open>What a caller hands to a constructor\<close>

text \<open>
  The value the data of a call \<^verbatim>\<open>cls(__dict__, **kwargs)\<close> gives a field: the keyword
  field if there is one, else the entry of the mapping, else \<^verbatim>\<open>None\<close>; this is what
  \<^verbatim>\<open>Entity.__new__\<close> and \<^verbatim>\<open>Entity.__init__\<close> leave in the field.
\<close>

definition given :: "pyval \<Rightarrow> (string \<times> pyval) list \<Rightarrow> string \<Rightarrow> pyval" where
  "given dict_arg kwargs name =
     (case map_of kwargs name of
        Some v \<Rightarrow> v
      | None \<Rightarrow> (case dict_arg of
                   PDict d \<Rightarrow> (case map_of d (PStr name) of Some v \<Rightarrow> v | None \<Rightarrow> PNone)
                 | _ \<Rightarrow> PNone))"

text \<open>
  The expression \<^verbatim>\<open>(__dict__ or kwargs).get('pointer_type')\<close> of \<^verbatim>\<open>Point.__new__\<close>: the
  entry of the mapping when the mapping is not empty, of the keyword fields otherwise. It
  is the argument of \<^verbatim>\<open>get_point_type\<close>, which wants it hashable.
\<close>

definition discriminator :: "pyval \<Rightarrow> (string \<times> pyval) list \<Rightarrow> pyval" where
  "discriminator dict_arg kwargs =
     (if truthy dict_arg then given dict_arg [] ''pointer_type''
      else given PNone kwargs ''pointer_type'')"

definition arg_dict :: "pyval \<Rightarrow> pydict" where
  "arg_dict a = (case a of PDict d \<Rightarrow> d | _ \<Rightarrow> [])"

section \<open>Farmbot.py: the query compiler and the executor\<close>

text \<open>The two patterns of \<^verbatim>\<open>PointQuery\<close>, \<^verbatim>\<open>__rxdate\<close> and \<^verbatim>\<open>__rxnum\<close>.\<close>

definition rx_ws :: rx where
  "rx_ws = Cls is_space"

definition rxdate :: rx where
  "rxdate =
     seqs [Opt (Seq (Group 1 (Alt (Lit ''before'') (Lit ''after''))) (Plus rx_ws)),
           Group 2 (alts
             (seqs [Plus rx_d, rx_ws, Plus (Cls is_lower), Plus rx_ws, Lit ''ago''])
             [seqs [Lit ''in'', Plus rx_ws, Plus rx_d, Plus rx_ws, Plus (Cls is_lower)],
              Lit ''now'',
              seqs [Lit ''20'', Cls (in_range CHR ''1'' CHR ''9''), rx_d, Lit ''-'', rx_d, rx_d,
                    Lit ''-'', rx_d, rx_d, Lit ''T'', rx_d, rx_d, Lit '':'', rx_d, rx_d,
                    Lit '':'', rx_d, rx_d, Seq (Lit ''.'') (Plus rx_d), Lit ''Z'']])]"

definition rxnum :: rx where
  "rxnum =
     seqs [Lit ''at'', Plus rx_ws, Group 1 (Alt (Lit ''least'') (Lit ''most'')), Plus rx_ws,
           Group 2 (seqs [Opt (Lit ''-''), Plus rx_d, Opt (Seq (Lit ''.'') (Plus rx_d)),
                          Opt (seqs [Cls (one_of ''eE''), Opt (Cls (one_of ''+-'')),
                                     Plus rx_d])])]"

text \<open>
  \<^verbatim>\<open>v[key]\<close> with a string as key: the entry of a dict; a \<^verbatim>\<open>KeyError\<close> when the dict has
  none; a \<^verbatim>\<open>TypeError\<close> for every other value. An entity instance is not subscriptable:
  \<^verbatim>\<open>Entity\<close> and its subclasses define no \<^verbatim>\<open>__getitem__\<close>.
\<close>

definition subscript :: "pyval \<Rightarrow> string \<Rightarrow> exn + pyval" where
  "subscript v key =
     (case v of
        PDict d \<Rightarrow> (case map_of d (PStr key) of Some x \<Rightarrow> Inr x | None \<Rightarrow> Inl KeyError)
      | _ \<Rightarrow> Inl TypeError)"

text \<open>
  The closure \<^verbatim>\<open>get\<close> of a clause: \<^verbatim>\<open>lambda v: v['meta'][key]\<close> for a clause routed to
  the metadata, \<^verbatim>\<open>lambda v: v[key]\<close> otherwise.
\<close>

definition getter :: "bool \<Rightarrow> string \<Rightarrow> pyval \<Rightarrow> exn + pyval" where
  "getter ismeta key v =
     (if ismeta then then_do (subscript v ''meta'') (\<lambda>m. subscript m key)
      else subscript v key)"

text \<open>The functions \<^verbatim>\<open>operator.lt\<close>, \<^verbatim>\<open>le\<close>, \<^verbatim>\<open>gt\<close>, \<^verbatim>\<open>ge\<close>.\<close>

datatype cmp = Lt | Le | Gt | Ge

fun compare :: "cmp \<Rightarrow> 'a::linorder \<Rightarrow> 'a \<Rightarrow> bool" where
  "compare Lt a b = (a < b)"
| "compare Le a b = (a \<le> b)"
| "compare Gt a b = (a > b)"
| "compare Ge a b = (a \<ge> b)"

text \<open>An order comparison in which a \<^verbatim>\<open>datetime\<close> takes part needs two of them.\<close>

definition compare_datetime :: "cmp \<Rightarrow> pyval \<Rightarrow> pyval \<Rightarrow> exn + bool" where
  "compare_datetime op a b =
     (case (a, b) of
        (PDatetime s, PDatetime t) \<Rightarrow> Inr (compare op s t)
      | _ \<Rightarrow> Inl TypeError)"

text \<open>
  The three kinds of local predicate:
  \<^verbatim>\<open>lambda v: op(parse_datetime(get(v)), date)\<close>,
  \<^verbatim>\<open>lambda v: op(float(get(v)), number)\<close> and \<^verbatim>\<open>lambda v: get(v) != value\<close>.
\<close>

definition date_predicate :: "env \<Rightarrow> (pyval \<Rightarrow> exn + pyval) \<Rightarrow> cmp \<Rightarrow> pyval \<Rightarrow> pyval \<Rightarrow> exn + bool" where
  "date_predicate E get op date v =
     then_do (get v) (\<lambda>x. then_do (parse_datetime E x PNone) (\<lambda>d. compare_datetime op d date))"

definition number_predicate :: "env \<Rightarrow> (pyval \<Rightarrow> exn + pyval) \<Rightarrow> cmp \<Rightarrow> real \<Rightarrow> pyval \<Rightarrow> exn + bool" where
  "number_predicate E get op number v =
     then_do (get v) (\<lambda>x. then_do (py_float E x) (\<lambda>r. Inr (compare op r number)))"

definition unequal_predicate :: "(pyval \<Rightarrow> exn + pyval) \<Rightarrow> pyval \<Rightarrow> pyval \<Rightarrow> exn + bool" where
  "unequal_predicate get val v = then_do (get v) (\<lambda>x. Inr (\<not> py_eq x val))"

text \<open>
  A \<^verbatim>\<open>PointQuery\<close> object. \<^verbatim>\<open>__init__\<close> assigns \<^verbatim>\<open>predicates\<close> and \<^verbatim>\<open>filter\<close>; the
  attribute \<^verbatim>\<open>factory\<close> is only annotated in the class body and \<^verbatim>\<open>__init__\<close> keeps the
  factory in a local variable, so the attribute exists only if a caller assigns it.
\<close>

record plan =
  predicates :: "(pyval \<Rightarrow> exn + bool) list"
  filter_obj :: pydict
  factory :: "(pyval \<Rightarrow> exn + pyval) option"

text \<open>The rule that routes a key to the metadata, written out at both places it is used.\<close>

definition ismeta_of :: "string list \<Rightarrow> string \<Rightarrow> bool" where
  "ismeta_of props key = (key \<in> {''meta'', ''id''} \<or> key \<notin> set props)"

text \<open>\<^verbatim>\<open>self.filter['meta'][key] = value\<close>\<close>

definition set_meta_filter :: "pydict \<Rightarrow> string \<Rightarrow> pyval \<Rightarrow> exn + pydict" where
  "set_meta_filter f key val =
     (case map_of f (PStr ''meta'') of
        None \<Rightarrow> Inl KeyError
      | Some (PDict m) \<Rightarrow> Inr (AList.update (PStr ''meta'') (PDict (AList.update (PStr key) val m)) f)
      | Some other \<Rightarrow> Inl TypeError)"

text \<open>The end of the loop body: a clause whose value is taken as it is.\<close>

definition literal_clause :: "bool \<Rightarrow> bool \<Rightarrow> string \<Rightarrow> pyval \<Rightarrow> plan \<Rightarrow> exn + plan" where
  "literal_clause negate ismeta key val q =
     (if negate
      then Inr (q\<lparr>predicates := predicates q @ [unequal_predicate (getter ismeta key) val]\<rparr>)
      else if ismeta
      then then_do (set_meta_filter (filter_obj q) key val) (\<lambda>f. Inr (q\<lparr>filter_obj := f\<rparr>))
      else Inr (q\<lparr>filter_obj := AList.update (PStr key) val (filter_obj q)\<rparr>))"

text \<open>
  ``Special number handling'' and what follows it, for the value the date handling has
  left (only a string has \<^verbatim>\<open>strip\<close>).
\<close>

definition number_clause :: "env \<Rightarrow> bool \<Rightarrow> bool \<Rightarrow> string \<Rightarrow> pyval \<Rightarrow> plan \<Rightarrow> exn + plan" where
  "number_clause E negate ismeta key val q =
     (case val of
        PStr s \<Rightarrow>
          (case fullmatch rxnum (strip s) of
             Some g \<Rightarrow>
               then_do (float_of_str E (group g 2)) (\<lambda>number.
                 Inr (q\<lparr>predicates := predicates q @
                        [number_predicate E (getter ismeta key)
                           (if group g 1 = ''least'' then (if \<not> negate then Ge else Lt)
                            else (if \<not> negate then Le else Gt))
                           number]\<rparr>))
           | None \<Rightarrow> literal_clause negate ismeta key val q)
      | _ \<Rightarrow> Inl AttributeError)"

text \<open>The body of the loop of \<^verbatim>\<open>PointQuery.__init__\<close> for one clause \<^verbatim>\<open>(key, value)\<close>.\<close>

definition compile_clause :: "env \<Rightarrow> string list \<Rightarrow> plan \<Rightarrow> string \<Rightarrow> pyval \<Rightarrow> exn + plan" where
  "compile_clause E props q key0 val =
     (let negate = (take 1 key0 = ''!'');
          key = (if negate then drop 1 key0 else key0);
          ismeta = ismeta_of props key
      in case val of
           PStr s \<Rightarrow>
             (case fullmatch rxdate (strip s) of
                Some g \<Rightarrow>
                  then_do (parse_datetime E (PStr (group g 2)) PNone) (\<lambda>date.
                    if group g 1 = []
                    then then_do (dump_datetime date) (\<lambda>val'.
                           number_clause E negate ismeta key val' q)
                    else Inr (q\<lparr>predicates := predicates q @
                                [date_predicate E (getter ismeta key)
                                   (if group g 1 = ''before''
                                    then (if \<not> negate then Lt else Ge)
                                    else (if \<not> negate then Gt else Le))
                                   date]\<rparr>))
              | None \<Rightarrow> number_clause E negate ismeta key val q)
         | _ \<Rightarrow> literal_clause negate ismeta key val q)"

text \<open>
  \<^verbatim>\<open>for key, value in query\<close>: every item is unpacked into two values, the first of
  which must be a string for \<^verbatim>\<open>key.startswith\<close>.
\<close>

definition compile_item :: "env \<Rightarrow> string list \<Rightarrow> plan \<Rightarrow> pyval \<Rightarrow> exn + plan" where
  "compile_item E props q item =
     then_do (py_iter item) (\<lambda>kv.
       case kv of
         [PStr key0, val] \<Rightarrow> compile_clause E props q key0 val
       | [k, val] \<Rightarrow> Inl AttributeError
       | _ \<Rightarrow> Inl ValueError)"

fun compile_loop :: "env \<Rightarrow> string list \<Rightarrow> plan \<Rightarrow> pyval list \<Rightarrow> exn + plan" where
  "compile_loop E props q [] = Inr q"
| "compile_loop E props q (item # items) =
     (case compile_item E props q item of
        Inl e \<Rightarrow> Inl e
      | Inr q' \<Rightarrow> compile_loop E props q' items)"

text \<open>
  \<^verbatim>\<open>PointQuery.__init__(point_type, query)\<close>. The last statement logs
  \<^verbatim>\<open>json.dumps(self.filter)\<close>, which can raise.
\<close>

definition drop_empty_meta :: "pydict \<Rightarrow> exn + pydict" where
  "drop_empty_meta f =
     (case map_of f (PStr ''meta'') of
        None \<Rightarrow> Inl KeyError
      | Some m \<Rightarrow> Inr (if \<not> truthy m then AList.delete (PStr ''meta'') f else f))"

definition PointQuery_init :: "env \<Rightarrow> cls \<Rightarrow> pyval \<Rightarrow> exn + plan" where
  "PointQuery_init E point_type query =
     then_do (get_props point_type) (\<lambda>props.
     then_do (unless_str E query) (\<lambda>query'.
     then_do (py_iter query') (\<lambda>items.
     then_do (compile_loop E (map fst props)
                \<lparr>predicates = [],
                 filter_obj = [(PStr ''pointer_type'', PStr (get_pointer_type point_type)),
                               (PStr ''meta'', PDict [])],
                 factory = None\<rparr>
                items) (\<lambda>q.
     then_do (drop_empty_meta (filter_obj q)) (\<lambda>f.
     then_do (json_dumps E (PDict f)) (\<lambda>logged. Inr (q\<lparr>filter_obj := f\<rparr>)))))))"

text \<open>
  \<^verbatim>\<open>PointQuery.execute\<close>. In the loop over the predicates, \<^verbatim>\<open>continue\<close> goes on with the
  next predicate, as does the end of the loop body; the \<^verbatim>\<open>append\<close> follows the loop.
  \<open>search_points\<close> is the remote search.
\<close>

fun run_predicates :: "(pyval \<Rightarrow> exn + bool) list \<Rightarrow> pyval \<Rightarrow> exn + unit" where
  "run_predicates [] point = Inr ()"
| "run_predicates (predicate # rest) point =
     (case predicate point of
        Inl e \<Rightarrow> Inl e
      | Inr ok \<Rightarrow> (if \<not> ok then run_predicates rest point else run_predicates rest point))"

fun execute_loop :: "plan \<Rightarrow> pyval list \<Rightarrow> pyval list \<Rightarrow> exn + pyval list" where
  "execute_loop q [] result = Inr result"
| "execute_loop q (data # rest) result =
     (case factory q of
        None \<Rightarrow> Inl AttributeError
      | Some f \<Rightarrow>
          (case f data of
             Inl e \<Rightarrow> Inl e
           | Inr point \<Rightarrow>
               (case run_predicates (predicates q) point of
                  Inl e \<Rightarrow> Inl e
                | Inr done \<Rightarrow> execute_loop q rest (result @ [point]))))"

definition execute :: "(pydict \<Rightarrow> exn + pyval list) \<Rightarrow> plan \<Rightarrow> exn + pyval list" where
  "execute search_points q =
     then_do (search_points (filter_obj q)) (\<lambda>raw. execute_loop q raw [])"

section \<open>Farmbot.py: deserialize and Point.apply\<close>

text \<open>
  \<^verbatim>\<open>typ.__name__\<close>: the name of a class; for a type of the \<^verbatim>\<open>typing\<close> module what the
  interpreter gives.
\<close>

definition type_name :: "env \<Rightarrow> ty \<Rightarrow> exn + string" where
  "type_name E t =
     (case t of
        TClass c \<Rightarrow> Inr (cls_name c)
      | TBool \<Rightarrow> Inr ''bool'' | TStr \<Rightarrow> Inr ''str'' | TInt \<Rightarrow> Inr ''int''
      | TFloat \<Rightarrow> Inr ''float'' | TDate \<Rightarrow> Inr ''date'' | TDatetime \<Rightarrow> Inr ''datetime''
      | TNoneType \<Rightarrow> Inr ''NoneType''
      | TAny \<Rightarrow> typing_name E ''Any''
      | TUnion args \<Rightarrow> typing_name E ''Union''
      | TList item \<Rightarrow> typing_name E ''List''
      | TDict k v \<Rightarrow> typing_name E ''Dict''
      | TUnsupported \<Rightarrow> typing_name E ''other'')"

text \<open>
  \<^verbatim>\<open>deserialize(typ, data)\<close>: the value or the exception that leaves the function, and
  the lines it hands to \<^verbatim>\<open>device.log\<close>. The handler builds the message (the name of the
  type, then \<^verbatim>\<open>json.dumps(data)\<close>), logs it and raises the exception it caught. By then
  \<^verbatim>\<open>data\<close> is what the failed call has left of it; when \<^verbatim>\<open>get_factory\<close> itself raised,
  no factory has touched it.
\<close>

definition payload_after :: "env \<Rightarrow> ty \<Rightarrow> pyval \<Rightarrow> pyval" where
  "payload_after E typ data =
     (case get_factory typ of Inl e \<Rightarrow> data | Inr f \<Rightarrow> left_by E f data)"

definition deserialize :: "env \<Rightarrow> ty \<Rightarrow> pyval \<Rightarrow> (exn + pyval) \<times> string list" where
  "deserialize E typ data =
     (case then_do (get_factory typ) (\<lambda>f. convert E f data) of
        Inr v \<Rightarrow> (Inr v, [])
      | Inl ex \<Rightarrow>
          (case type_name E typ of
             Inl e \<Rightarrow> (Inl e, [])
           | Inr name \<Rightarrow>
               (case json_dumps E (payload_after E typ data) of
                  Inl e \<Rightarrow> (Inl e, [])
                | Inr text \<Rightarrow>
                    (Inl ex, [''Failed to deserialize '' @ name @ '' from data '' @ text]))))"






section \<open>Mappings as objects: who shares the mapping a record is built from\<close>

text \<open>
  Where it matters which dict object a record holds, the dicts live in a store: an address
  is a position in a list of dicts, and a new dict is put at the end. An instance is its
  class and the address of its \<^verbatim>\<open>__dict__\<close>.

  Calling a class with the dict at address \<open>a\<close> as \<^verbatim>\<open>__dict__\<close>: \<^verbatim>\<open>Entity.__new__\<close>
  makes that dict the \<^verbatim>\<open>__dict__\<close> of the instance if it is true (not empty), and leaves
  the instance its own new dict otherwise; all later writes of \<^verbatim>\<open>__new__\<close> and
  \<^verbatim>\<open>__init__\<close> go to the \<^verbatim>\<open>__dict__\<close> of the instance.
\<close>

record inst =
  inst_class :: cls
  inst_dict :: nat

definition construct_in :: "cls \<Rightarrow> nat \<Rightarrow> (string \<times> pyval) list \<Rightarrow> pydict list
                            \<Rightarrow> exn + (inst \<times> pydict list)" where
  "construct_in c a kwargs store =
     then_do (construct c (PDict (store ! a)) kwargs) (\<lambda>obj.
       (case obj of
          PObj c' d' \<Rightarrow>
            (if truthy (PDict (store ! a))
             then Inr (\<lparr>inst_class = c', inst_dict = a\<rparr>, store[a := d'])
             else Inr (\<lparr>inst_class = c', inst_dict = length store\<rparr>, store @ [d']))
        | _ \<Rightarrow> Inl TypeError))"

text \<open>
  \<^verbatim>\<open>EntityFactory(cls).make(data)\<close> for the dict at address \<open>a\<close>: the loop writes into
  that dict, then the class is called with it.
\<close>

definition make_in :: "env \<Rightarrow> cls \<Rightarrow> nat \<Rightarrow> pydict list \<Rightarrow> exn + (inst \<times> pydict list)" where
  "make_in E c a store =
     (case recursion_limit E of
        0 \<Rightarrow> Inl RecursionError
      | Suc depth \<Rightarrow>
          then_do (get_props c) (\<lambda>props.
          then_do (make_loop (call depth E) props (PDict (store ! a))) (\<lambda>data.
            (case data of
               PDict d \<Rightarrow> construct_in c a [] (store[a := d])
             | _ \<Rightarrow> Inl TypeError))))"

text \<open>\<^verbatim>\<open>setattr(record, name, value)\<close>: a write to the \<^verbatim>\<open>__dict__\<close> of the instance.\<close>

definition setattr_in :: "inst \<Rightarrow> string \<Rightarrow> pyval \<Rightarrow> pydict list \<Rightarrow> pydict list" where
  "setattr_in r name v store = store[inst_dict r := setattr (store ! inst_dict r) name v]"

section \<open>Notions used to state the properties\<close>


text \<open>
  An environment to run the examples in: the clock stands at 2024-05-29T00:00:00, the
  recursion limit is Python's default, and the library functions know the few arguments
  the examples hand them. \<open>json_x_1\<close> is the text \<^verbatim>\<open>json.dumps\<close> makes of \<^verbatim>\<open>{'x': 1}\<close>,
  with its two double quotes.
\<close>

definition json_x_1 :: string where
  "json_x_1 = ''{'' @ [CHR 0x22] @ ''x'' @ [CHR 0x22] @ '': 1}''"

definition example_env :: env where
  "example_env =
     \<lparr> now = 63852537600000000,
       recursion_limit = 1000,
       literal_eval = (\<lambda>s. Inl ValueError),
       int_of_str = (\<lambda>s. Inl ValueError),
       float_of_str = (\<lambda>s. if s = ''5'' then Inr 5 else Inl ValueError),
       float_of_int = (\<lambda>i. Inl OverflowError),
       repr = (\<lambda>v. ''<value>''),
       utcfromtimestamp = (\<lambda>r. Inl OSError),
       iadd = (\<lambda>a b. Inl TypeError),
       json_dumps = (\<lambda>v. if v = PDict [(PStr ''x'', PInt 1)] then Inr json_x_1
                         else Inr ''<json>''),
       typing_name = (\<lambda>s. Inr s) \<rparr>"

section \<open>Properties\<close>

lemma map_of_setdefault:
  "map_of (setdefault d k) x = (case map_of d x of Some v \<Rightarrow> Some v
                                | None \<Rightarrow> if x = PStr k then Some PNone else None)"
  by (auto simp: setdefault_def map_of_append map_add_def split: option.splits)

lemma map_of_foldl_setdefault:
  "map_of (foldl setdefault d ks) x = (case map_of d x of Some v \<Rightarrow> Some v
                                | None \<Rightarrow> if x \<in> PStr ` set ks then Some PNone else None)"
proof (induction ks arbitrary: d)
  case Nil
  then show ?case by (simp split: option.splits)
next
  case (Cons k ks)
  show ?case
    by (simp add: Cons.IH map_of_setdefault split: option.splits)
qed

lemma map_of_setattr: "map_of (setattr d k v) = (map_of d)(PStr k \<mapsto> v)"
  by (simp add: setattr_def update_conv')

lemma map_of_foldl_setattr:
  "map_of (foldl (\<lambda>d' (k, v). setattr d' k v) d kw) (PStr k) =
     (case map_of (rev kw) k of Some v \<Rightarrow> Some v | None \<Rightarrow> map_of d (PStr k))"
proof (induction kw arbitrary: d)
  case Nil
  then show ?case by simp
next
  case (Cons a kw)
  obtain k' v' where a: "a = (k', v')" by (cases a)
  show ?case
    by (auto simp add: Cons.IH a map_of_setattr map_of_append map_add_def split: option.splits)
qed

lemma map_of_Entity_init:
  "map_of (Entity_init d kw) (PStr k) =
     (case map_of (rev kw) k of Some v \<Rightarrow> Some v | None \<Rightarrow> map_of d (PStr k))"
  by (cases "kw = []") (simp_all add: Entity_init_def map_of_foldl_setattr)

lemma default_if_none_Some:
  assumes "map_of d (PStr k) = Some x"
  shows "default_if_none k v d = Inr (if x = PNone then setattr d k v else d)"
  using assms by (simp add: default_if_none_def getattr_def then_do_def)

lemma props_point:
  "get_props Point = Inr [(''x'', FInt), (''y'', FInt), (''z'', FInt), (''id'', FInt),
      (''created_at'', FDatetime), (''updated_at'', FDatetime),
      (''device_id'', FInt), (''pointer_type'', FStr), (''name'', FStr),
      (''meta'', FDict FStr FAny), (''radius'', FFloat), (''discarded_at'', FNullable)]"
  by (simp add: get_props_def get_type_hints_def Optional_def)

lemma props_plant:
  "get_props Plant = Inr [(''x'', FInt), (''y'', FInt), (''z'', FInt), (''id'', FInt),
      (''created_at'', FDatetime), (''updated_at'', FDatetime),
      (''device_id'', FInt), (''pointer_type'', FStr), (''name'', FStr),
      (''meta'', FDict FStr FAny), (''radius'', FFloat), (''discarded_at'', FNullable),
      (''openfarm_slug'', FStr), (''plant_stage'', FStr), (''planted_at'', FNullable)]"
  by (simp add: get_props_def get_type_hints_def Optional_def)

lemma props_toolslot:
  "get_props ToolSlot = Inr [(''x'', FInt), (''y'', FInt), (''z'', FInt), (''id'', FInt),
      (''created_at'', FDatetime), (''updated_at'', FDatetime),
      (''device_id'', FInt), (''pointer_type'', FStr), (''name'', FStr),
      (''meta'', FDict FStr FAny), (''radius'', FFloat), (''discarded_at'', FNullable),
      (''tool_id'', FInt), (''pullout_direction'', FNullable)]"
  by (simp add: get_props_def get_type_hints_def Optional_def)

lemma is_point_cases: "is_point c \<longleftrightarrow> c = Point \<or> c = Plant \<or> c = ToolSlot"
  by (cases c) (simp_all add: is_point_def)

lemma point_types_eq: "point_types = [(''Plant'', Plant), (''ToolSlot'', ToolSlot)]"
  by (simp add: point_types_def)

lemma map_of_rev_distinct: "distinct (map fst kw) \<Longrightarrow> map_of (rev kw) = map_of kw"
  by (rule ext) (metis distinct_rev map_of_eq_Some_iff map_of_eq_None_iff not_Some_eq rev_map set_rev)

lemma map_of_kwargs_dict: "map_of (kwargs_dict kw) (PStr k) = map_of kw k"
  by (induction kw) (auto simp: kwargs_dict_def)

lemma Entity_new_ok:
  assumes "get_props c = Inr props" and "a = PNone \<or> (\<exists>d. a = PDict d)"
  shows "Entity_new c a = Inr (foldl setdefault (arg_dict a) (map fst props))"
  using assms by (auto simp: Entity_new_def then_do_def arg_dict_def)

lemma point_props_fields:
  assumes "is_point c"
  shows "\<exists>props. get_props c = Inr props \<and> map fst props = map fst (get_type_hints c)
           \<and> {''pointer_type'', ''meta'', ''x'', ''y'', ''z'', ''radius''} \<subseteq> set (map fst props)"
  using assms unfolding is_point_cases
  by (auto simp: props_point props_plant props_toolslot get_type_hints_def Optional_def)


lemma get_point_type_ok:
  assumes "hashable v"
  shows "get_point_type v = Inr (case v of PStr n \<Rightarrow> (if n = ''Plant'' then Plant
                                  else if n = ''ToolSlot'' then ToolSlot else Point)
                               | _ \<Rightarrow> Point)"
  using assms by (cases v) (auto simp: get_point_type_def point_types_eq)

lemma default_step:
  assumes "map_of d (PStr k) \<noteq> None"
  shows "\<exists>d'. default_if_none k v d = Inr d'
           \<and> (\<forall>x. map_of d' x = (if x = PStr k \<and> map_of d x = Some PNone then Some v
                                  else map_of d x))"
  using assms
  by (auto simp: default_if_none_def getattr_def then_do_def map_of_setattr)

lemma Point_init_ok:
  assumes "\<forall>k \<in> {''pointer_type'', ''meta'', ''x'', ''y'', ''z'', ''radius''}. map_of d (PStr k) \<noteq> None"
  shows "\<exists>d'. Point_init c d kw = Inr d'
     \<and> (\<forall>x. map_of d' x =
          (let m = map_of (Entity_init d kw) in
           if x = PStr ''pointer_type'' then (if truthy (the (m x)) then m x else Some (PStr (get_pointer_type c)))
           else if x = PStr ''meta'' then (if m x = Some PNone then Some (PDict []) else m x)
           else if x \<in> {PStr ''x'', PStr ''y'', PStr ''z''} then (if m x = Some PNone then Some (PInt 0) else m x)
           else if x = PStr ''radius'' then (if m x = Some PNone then Some (PFloat 0) else m x)
           else m x))"
proof -
  let ?e = "Entity_init d kw"
  have dom: "\<And>k. k \<in> {''pointer_type'', ''meta'', ''x'', ''y'', ''z'', ''radius''} \<Longrightarrow> map_of ?e (PStr k) \<noteq> None"
    using assms by (auto simp: map_of_Entity_init split: option.splits)
  obtain pt where pt: "map_of ?e (PStr ''pointer_type'') = Some pt" using dom by blast
  define d0 where "d0 = (if \<not> truthy pt then setattr ?e ''pointer_type'' (PStr (get_pointer_type c)) else ?e)"
  have m0: "map_of d0 x = (if x = PStr ''pointer_type'' \<and> \<not> truthy pt then Some (PStr (get_pointer_type c)) else map_of ?e x)" for x
    by (simp add: d0_def map_of_setattr)
  have "map_of d0 (PStr ''meta'') \<noteq> None" using dom[of "''meta''"] by (simp add: m0)
  from default_step[OF this, of "PDict []"] obtain d1 where
    r1: "default_if_none ''meta'' (PDict []) d0 = Inr d1" and
    m1: "\<And>x. map_of d1 x = (if x = PStr ''meta'' \<and> map_of d0 x = Some PNone then Some (PDict []) else map_of d0 x)"
    by blast
  have "map_of d1 (PStr ''x'') \<noteq> None" using dom[of "''x''"] by (simp add: m0 m1)
  from default_step[OF this, of "PInt 0"] obtain d2 where
    r2: "default_if_none ''x'' (PInt 0) d1 = Inr d2" and
    m2: "\<And>x. map_of d2 x = (if x = PStr ''x'' \<and> map_of d1 x = Some PNone then Some (PInt 0) else map_of d1 x)"
    by blast
  have "map_of d2 (PStr ''y'') \<noteq> None" using dom[of "''y''"] by (simp add: m0 m1 m2)
  from default_step[OF this, of "PInt 0"] obtain d3 where
    r3: "default_if_none ''y'' (PInt 0) d2 = Inr d3" and
    m3: "\<And>x. map_of d3 x = (if x = PStr ''y'' \<and> map_of d2 x = Some PNone then Some (PInt 0) else map_of d2 x)"
    by blast
  have "map_of d3 (PStr ''z'') \<noteq> None" using dom[of "''z''"] by (simp add: m0 m1 m2 m3)
  from default_step[OF this, of "PInt 0"] obtain d4 where
    r4: "default_if_none ''z'' (PInt 0) d3 = Inr d4" and
    m4: "\<And>x. map_of d4 x = (if x = PStr ''z'' \<and> map_of d3 x = Some PNone then Some (PInt 0) else map_of d3 x)"
    by blast
  have "map_of d4 (PStr ''radius'') \<noteq> None" using dom[of "''radius''"] by (simp add: m0 m1 m2 m3 m4)
  from default_step[OF this, of "PFloat 0"] obtain d5 where
    r5: "default_if_none ''radius'' (PFloat 0) d4 = Inr d5" and
    m5: "\<And>x. map_of d5 x = (if x = PStr ''radius'' \<and> map_of d4 x = Some PNone then Some (PFloat 0) else map_of d4 x)"
    by blast
  have run: "Point_init c d kw = Inr d5"
    unfolding Point_init_def
    using r1 r2 r3 r4 r5 by (simp add: getattr_def pt then_do_def d0_def)
  have "map_of d5 x =
          (let m = map_of (Entity_init d kw) in
           if x = PStr ''pointer_type'' then (if truthy (the (m x)) then m x else Some (PStr (get_pointer_type c)))
           else if x = PStr ''meta'' then (if m x = Some PNone then Some (PDict []) else m x)
           else if x \<in> {PStr ''x'', PStr ''y'', PStr ''z''} then (if m x = Some PNone then Some (PInt 0) else m x)
           else if x = PStr ''radius'' then (if m x = Some PNone then Some (PFloat 0) else m x)
           else m x)" for x
    using pt by (simp add: Let_def m0 m1 m2 m3 m4 m5)
  with run show ?thesis by blast
qed

lemma Point_new_ok:
  assumes pv: "is_point c"
    and arg: "a = PNone \<or> (\<exists>d. a = PDict d)"
    and disc: "c = Point \<longrightarrow> hashable (discriminator a kw)"
    and c': "c' = (if c = Point
                  then (case discriminator a kw of
                          PStr n \<Rightarrow> (if n = ''Plant'' then Plant
                                     else if n = ''ToolSlot'' then ToolSlot else Point)
                        | _ \<Rightarrow> Point)
                  else c)"
  shows "is_point c' \<and> (\<exists>props. get_props c' = Inr props
           \<and> map fst props = map fst (get_type_hints c')
           \<and> {''pointer_type'', ''meta'', ''x'', ''y'', ''z'', ''radius''} \<subseteq> set (map fst props)
           \<and> Point_new c a kw = Inr (c', foldl setdefault (arg_dict a) (map fst props)))"
proof -
  have pv': "is_point c'"
    using pv unfolding c' is_point_cases by (auto split: pyval.splits)
  from point_props_fields[OF pv'] obtain props where
    props: "get_props c' = Inr props" "map fst props = map fst (get_type_hints c')"
      "{''pointer_type'', ''meta'', ''x'', ''y'', ''z'', ''radius''} \<subseteq> set (map fst props)"
    by blast
  have sel: "(if c = Point \<and> (truthy a \<or> kw \<noteq> [])
        then (case (if truthy a then a else PDict (kwargs_dict kw)) of
                PDict d \<Rightarrow> get_point_type (case map_of d (PStr ''pointer_type'') of
                                              Some v \<Rightarrow> v | None \<Rightarrow> PNone)
              | _ \<Rightarrow> Inl AttributeError)
        else Inr c) = Inr c'"
  proof (cases "c = Point")
    case False
    then show ?thesis by (simp add: c')
  next
    case True
    with disc have h: "hashable (discriminator a kw)" by simp
    show ?thesis
    proof (cases "truthy a")
      case ta: True
      with arg obtain d where a: "a = PDict d" by auto
      have "(case map_of d (PStr ''pointer_type'') of Some v \<Rightarrow> v | None \<Rightarrow> PNone)
              = discriminator a kw"
        using ta by (simp add: discriminator_def given_def a)
      then show ?thesis
        using True ta get_point_type_ok[OF h] by (simp add: a c')
    next
      case fa: False
      show ?thesis
      proof (cases "kw = []")
        case True
        then have "discriminator a kw = PNone"
          using fa by (simp add: discriminator_def given_def)
        then show ?thesis using \<open>c = Point\<close> fa True by (simp add: c')
      next
        case False
        have "(case map_of (kwargs_dict kw) (PStr ''pointer_type'') of Some v \<Rightarrow> v | None \<Rightarrow> PNone)
                = discriminator a kw"
          using fa by (simp add: discriminator_def given_def map_of_kwargs_dict split: option.splits)
        then show ?thesis
          using \<open>c = Point\<close> fa False get_point_type_ok[OF h] by (simp add: c')
      qed
    qed
  qed
  have "Point_new c a kw = Inr (c', foldl setdefault (arg_dict a) (map fst props))"
    unfolding Point_new_def sel
    by (simp add: then_do_def Entity_new_ok[OF props(1) arg])
  with pv' props show ?thesis by blast
qed

lemma construct_point:
  assumes pv: "is_point c"
    and arg: "a = PNone \<or> (\<exists>d. a = PDict d)"
    and kw: "distinct (map fst kw)"
    and disc: "c = Point \<longrightarrow> hashable (discriminator a kw)"
    and c': "c' = (if c = Point
                  then (case discriminator a kw of
                          PStr n \<Rightarrow> (if n = ''Plant'' then Plant
                                     else if n = ''ToolSlot'' then ToolSlot else Point)
                        | _ \<Rightarrow> Point)
                  else c)"
  shows "\<exists>d'. construct c a kw = Inr (PObj c' d') \<and>
           (\<forall>k \<in> set (map fst (get_type_hints c')). map_of d' (PStr k) = Some
              (if k = ''pointer_type''
               then (if truthy (given a kw k) then given a kw k else PStr (get_pointer_type c'))
               else if given a kw k \<noteq> PNone then given a kw k
               else if k = ''meta'' then PDict []
               else if k \<in> {''x'', ''y'', ''z''} then PInt 0
               else if k = ''radius'' then PFloat 0
               else PNone))"
proof -
  from Point_new_ok[OF pv arg disc c'] obtain props where
    pv': "is_point c'" and props: "get_props c' = Inr props"
    and names: "map fst props = map fst (get_type_hints c')"
    and sub: "{''pointer_type'', ''meta'', ''x'', ''y'', ''z'', ''radius''} \<subseteq> set (map fst props)"
    and new: "Point_new c a kw = Inr (c', foldl setdefault (arg_dict a) (map fst props))"
    by blast
  let ?d = "foldl setdefault (arg_dict a) (map fst props)"
  have pres: "\<forall>k \<in> {''pointer_type'', ''meta'', ''x'', ''y'', ''z'', ''radius''}.
                map_of ?d (PStr k) \<noteq> None"
    using sub by (auto simp: map_of_foldl_setdefault split: option.splits)
  from Point_init_ok[OF pres, of c' kw] obtain d' where
    init: "Point_init c' ?d kw = Inr d'" and
    m: "\<And>x. map_of d' x =
          (let m = map_of (Entity_init ?d kw) in
           if x = PStr ''pointer_type'' then (if truthy (the (m x)) then m x else Some (PStr (get_pointer_type c')))
           else if x = PStr ''meta'' then (if m x = Some PNone then Some (PDict []) else m x)
           else if x \<in> {PStr ''x'', PStr ''y'', PStr ''z''} then (if m x = Some PNone then Some (PInt 0) else m x)
           else if x = PStr ''radius'' then (if m x = Some PNone then Some (PFloat 0) else m x)
           else m x)"
    by blast
  have run: "construct c a kw = Inr (PObj c' d')"
    using pv by (simp add: construct_def new init then_do_def)
  have giv: "map_of (Entity_init ?d kw) (PStr k) = Some (given a kw k)"
    if "k \<in> set (map fst (get_type_hints c'))" for k
    using that names arg
    by (auto simp: map_of_Entity_init map_of_rev_distinct[OF kw] given_def arg_dict_def
          map_of_foldl_setdefault split: option.splits)
  have "map_of d' (PStr k) = Some
              (if k = ''pointer_type''
               then (if truthy (given a kw k) then given a kw k else PStr (get_pointer_type c'))
               else if given a kw k \<noteq> PNone then given a kw k
               else if k = ''meta'' then PDict []
               else if k \<in> {''x'', ''y'', ''z''} then PInt 0
               else if k = ''radius'' then PFloat 0
               else PNone)"
    if kin: "k \<in> set (map fst (get_type_hints c'))" for k
  proof -
    note g = giv[OF kin]
    consider "k = ''pointer_type''" | "k = ''meta''" | "k = ''x''" | "k = ''y''" | "k = ''z''"
      | "k = ''radius''"
      | "k \<noteq> ''pointer_type''" "k \<noteq> ''meta''" "k \<noteq> ''x''" "k \<noteq> ''y''" "k \<noteq> ''z''"
        "k \<noteq> ''radius''"
      by blast
    then show ?thesis
    proof cases
      case 1
      with g show ?thesis by (simp add: m Let_def)
    next
      case 2
      with g show ?thesis by (simp add: m Let_def)
    next
      case 3
      with g show ?thesis by (simp add: m Let_def)
    next
      case 4
      with g show ?thesis by (simp add: m Let_def)
    next
      case 5
      with g show ?thesis by (simp add: m Let_def)
    next
      case 6
      with g show ?thesis by (simp add: m Let_def)
    next
      case 7
      with g show ?thesis by (simp add: m Let_def)
    qed
  qed
  with run show ?thesis by blast
qed

lemma resolve_props_names:
  "resolve_props hints = Inr props \<Longrightarrow> map fst props = map fst hints"
proof (induction hints arbitrary: props)
  case Nil
  then show ?case by simp
next
  case (Cons h hints)
  obtain name t where h: "h = (name, t)" by (cases h)
  from Cons.prems show ?case
    by (auto simp: h Cons.IH split: sum.splits)
qed

lemma get_props_names: "get_props c = Inr props \<Longrightarrow> map fst props = map fst (get_type_hints c)"
  by (simp add: get_props_def resolve_props_names)


lemmas rx_defs = fullmatch_def prefixmatch_def seqs_def alts_def is_digit_def is_space_def
  is_lower_def in_range_def one_of_def group_def digits_value_def field_value_def rx_d_def
  rx_ws_def

lemmas str_defs = strip_def lower_def lower_char_def collapse_ws_def

lemmas strptime_defs = strptime_datetime_def datetime_format_rx_def rx_Y_def rx_m_def
  rx_day_def rx_H_def rx_M_def rx_S_def rx_f_def datetime_of_def days_in_month_def is_leap_def
  ymd2ord_def days_before_year_def days_before_month_def DAYS_BEFORE_MONTH_def
  DAYS_IN_MONTH_def US_PER_DAY_def Let_def

lemmas strftime_defs = strftime_datetime_def strftime_date_def US_PER_DAY_def ord2ymd_def
  Let_def DAYS_BEFORE_MONTH_def DAYS_IN_MONTH_def year_str_def pad2_def pad6_def digit_char_def

lemmas offset_defs = parse_offset_def int_of_digits_def in_rx_def ago_rx_def unit_rx_def timedelta_def
  timedelta_units_def US_PER_DAY_def then_do_def

lemma tomato_no_date: "fullmatch rxdate (strip ''Tomato'') = None"
  by (simp add: rxdate_def rx_defs str_defs)

lemma tomato_no_number: "fullmatch rxnum (strip ''Tomato'') = None"
  by (simp add: rxnum_def rx_defs str_defs)

lemma run_predicates_ignores_results:
  "run_predicates ps point = Inr u \<longleftrightarrow> (\<forall>p \<in> set ps. \<exists>b. p point = Inr b)"
  by (induction ps) (auto split: sum.splits)

lemma execute_loop_keeps_every_record:
  assumes "factory q = Some f" and "execute_loop q raw acc = Inr result"
  shows "\<exists>points. map_exn f raw = Inr points \<and> result = acc @ points"
  using assms(2)
proof (induction raw arbitrary: acc)
  case Nil
  then show ?case by simp
next
  case (Cons data raw)
  from Cons.prems assms(1) obtain point where
    p: "f data = Inr point" and
    rest: "execute_loop q raw (acc @ [point]) = Inr result"
    by (auto split: sum.splits)
  from Cons.IH[OF rest] obtain points where
    "map_exn f raw = Inr points" "result = (acc @ [point]) @ points"
    by blast
  with p show ?case by simp
qed

lemma digit_char_is_digit: "is_digit (digit_char n)"
proof -
  have "\<forall>c \<in> set ''0123456789''. is_digit c"
    by (simp add: is_digit_def)
  moreover have "''0123456789'' ! (n mod 10) \<in> set ''0123456789''"
    by (rule nth_mem) simp
  ultimately show ?thesis
    unfolding digit_char_def by blast
qed

lemma year_str_head: "\<exists>c rest. year_str y = c # rest \<and> is_digit c"
proof (cases "dropWhile (\<lambda>c. c = CHR ''0'')
                [digit_char (y div 1000), digit_char (y div 100), digit_char (y div 10)]")
  case Nil
  then show ?thesis by (simp add: year_str_def digit_char_is_digit)
next
  case (Cons c rest)
  then have "c \<in> set [digit_char (y div 1000), digit_char (y div 100), digit_char (y div 10)]"
    by (metis list.set_intros(1) set_dropWhileD)
  then have "is_digit c" by (auto simp: digit_char_is_digit)
  with Cons show ?thesis by (simp add: year_str_def)
qed

lemma strftime_date_head: "\<exists>c rest. strftime_date d = c # rest \<and> is_digit c"
proof (cases "ord2ymd (nat d + 1)")
  case (fields y m dd)
  from year_str_head[of y] obtain c rest where "year_str y = c # rest" "is_digit c" by blast
  then show ?thesis
    using fields by (simp add: strftime_date_def)
qed

lemma strftime_datetime_head: "\<exists>c rest. strftime_datetime t = c # rest \<and> is_digit c"
proof -
  from strftime_date_head[of "t div US_PER_DAY"] obtain c rest where
    "strftime_date (t div US_PER_DAY) = c # rest" "is_digit c" by blast
  then show ?thesis
    by (simp add: strftime_datetime_def Let_def)
qed

lemma digit_not_space: "is_digit c \<Longrightarrow> \<not> is_space c"
  by (auto simp: is_digit_def is_space_def)

lemma strip_keeps_head:
  assumes "\<not> is_space c"
  shows "\<exists>xs. strip (c # rest) = c # xs"
proof -
  have "dropWhile is_space (rev rest @ [c]) = dropWhile is_space (rev rest) @ [c]"
    using assms by (simp add: dropWhile_append3)
  then show ?thesis using assms by (simp add: strip_def)
qed

lemma rxnum_starts_with_a:
  assumes "c \<noteq> CHR ''a''"
  shows "fullmatch rxnum (c # xs) = None"
  using assms by (simp add: fullmatch_def rxnum_def seqs_def)

lemma rxnum_rejects_instant: "fullmatch rxnum (strip (strftime_datetime t)) = None"
proof -
  from strftime_datetime_head[of t] obtain c rest where
    s: "strftime_datetime t = c # rest" and d: "is_digit c" by blast
  from strip_keeps_head[OF digit_not_space[OF d], of rest] obtain xs where
    x: "strip (c # rest) = c # xs" by blast
  have "c \<noteq> CHR ''a''" using d by (auto simp: is_digit_def)
  then show ?thesis by (simp add: s x rxnum_starts_with_a)
qed

lemma getter_of_instance: "getter ismeta key (PObj c d) = Inl TypeError"
  by (simp add: getter_def subscript_def then_do_def)

lemma call_FStr: "0 < n \<Longrightarrow> call n E FStr v = Inr (PStr (py_str E v))"
  by (cases n) simp_all

lemma call_FInt: "0 < n \<Longrightarrow> call n E FInt v = then_do (unless_str E v) (py_int E)"
  by (cases n) simp_all

lemma call_FDict:
  "0 < n \<Longrightarrow> call n E (FDict kf vf) v =
     then_do (unless_str E v) (\<lambda>v'.
     then_do (py_items v') (\<lambda>items.
     then_do (dict_conv (call (n - 1) E kf) (call (n - 1) E vf) items [])
       (\<lambda>d. Inr (PDict d))))"
  by (cases n) simp_all

lemma call_FMake:
  "0 < n \<Longrightarrow> call n E (FMake c) v =
     then_do (get_props c) (\<lambda>props.
     then_do (make_loop (call (n - 1) E) props v) (\<lambda>data. construct c data []))"
  by (cases n) simp_all

lemma props_coordinate: "get_props Coordinate = Inr [(''x'', FInt), (''y'', FInt), (''z'', FInt)]"
  by (simp add: get_props_def get_type_hints_def)

lemma props_command: "get_props Command = Inr [(''kind'', FStr), (''args'', FDict FStr FAny)]"
  by (simp add: get_props_def get_type_hints_def)

lemma props_entity: "get_props Entity = Inr []"
  by (simp add: get_props_def get_type_hints_def)

lemma make_loop_dict:
  "make_loop conv props (PDict d) = Inr data \<Longrightarrow> \<exists>d'. data = PDict d'"
proof (induction props arbitrary: d)
  case Nil
  then show ?case by auto
next
  case (Cons p props)
  obtain key f where p: "p = (key, f)" by (cases p)
  from Cons.prems show ?case
    by (auto simp: p split: sum.splits dest: Cons.IH)
qed

lemma update_not_empty: "AList.update k v al \<noteq> []"
  by (cases al) auto

lemma make_loop_not_empty:
  assumes "make_loop conv props (PDict d) = Inr (PDict d')" and "d \<noteq> [] \<or> props \<noteq> []"
  shows "d' \<noteq> []"
  using assms
proof (induction props arbitrary: d)
  case Nil
  then show ?case by simp
next
  case (Cons p props)
  obtain key f where p: "p = (key, f)" by (cases p)
  from Cons.prems(1) obtain v where
    rest: "make_loop conv props (PDict (AList.update (PStr key) v d)) = Inr (PDict d')"
    by (auto simp: p split: sum.splits)
  from Cons.IH[OF rest] show ?case by (simp add: update_not_empty)
qed

lemma make_loop_writes:
  assumes "make_loop conv props (PDict d) = Inr (PDict d')" and "distinct (map fst props)"
  shows "(\<forall>k f. (k, f) \<in> set props \<longrightarrow>
            (\<exists>v. conv f (case map_of d (PStr k) of Some x \<Rightarrow> x | None \<Rightarrow> PNone) = Inr v
                 \<and> map_of d' (PStr k) = Some v))
         \<and> (\<forall>x. x \<notin> PStr ` fst ` set props \<longrightarrow> map_of d' x = map_of d x)"
  using assms
proof (induction props arbitrary: d)
  case Nil
  then show ?case by simp
next
  case (Cons p props)
  obtain key f where p: "p = (key, f)" by (cases p)
  from Cons.prems(1) obtain v where
    v: "conv f (case map_of d (PStr key) of Some x \<Rightarrow> x | None \<Rightarrow> PNone) = Inr v" and
    rest: "make_loop conv props (PDict (AList.update (PStr key) v d)) = Inr (PDict d')"
    by (auto simp: p split: sum.splits)
  from Cons.prems(2) have dist: "distinct (map fst props)" and fresh: "key \<notin> fst ` set props"
    by (auto simp: p)
  from Cons.IH[OF rest dist] have
    ih1: "\<And>k f. (k, f) \<in> set props \<Longrightarrow>
            \<exists>w. conv f (case map_of (AList.update (PStr key) v d) (PStr k) of
                           Some x \<Rightarrow> x | None \<Rightarrow> PNone) = Inr w
                 \<and> map_of d' (PStr k) = Some w" and
    ih2: "\<And>x. x \<notin> PStr ` fst ` set props \<Longrightarrow> map_of d' x = map_of (AList.update (PStr key) v d) x"
    by blast+
  have here: "map_of d' (PStr key) = Some v"
    using ih2[of "PStr key"] fresh by (auto simp: update_conv')
  have others: "\<exists>w. conv f' (case map_of d (PStr k) of Some x \<Rightarrow> x | None \<Rightarrow> PNone) = Inr w
                 \<and> map_of d' (PStr k) = Some w"
    if "(k, f') \<in> set props" for k f'
  proof -
    from that fresh have "k \<noteq> key" by force
    with ih1[OF that] show ?thesis by (simp add: update_conv')
  qed
  have unchanged: "map_of d' x = map_of d x" if "x \<notin> PStr ` fst ` set (p # props)" for x
  proof -
    from that have "x \<noteq> PStr key" "x \<notin> PStr ` fst ` set props" by (auto simp: p)
    with ih2[of x] show ?thesis by (simp add: update_conv')
  qed
  show ?case
    using v here others unchanged by (auto simp: p)
qed

lemma distinct_foldl_update:
  "distinct (map fst acc) \<Longrightarrow>
   distinct (map fst (foldl (\<lambda>hints (name, t). AList.update name t hints) acc xs))"
proof (induction xs arbitrary: acc)
  case Nil
  then show ?case by simp
next
  case (Cons x xs)
  obtain name t where x: "x = (name, t)" by (cases x)
  show ?case
    by (simp add: x Cons.IH Cons.prems distinct_update)
qed

lemma distinct_type_hints: "distinct (map fst (get_type_hints c))"
  by (simp add: get_type_hints_def distinct_foldl_update)

lemma factories_of_none:
  "call (Suc n) E FAny PNone = Inr PNone"
  "call (Suc n) E FBool PNone = Inr (PBool False)"
  "call (Suc n) E FStr PNone = Inr (PStr ''None'')"
  "call (Suc n) E FInt PNone = Inl TypeError"
  "call (Suc n) E FFloat PNone = Inl TypeError"
  "call (Suc n) E FDate PNone = Inr PNone"
  "call (Suc n) E FDatetime PNone = Inr PNone"
  "call (Suc n) E FNullable PNone = Inr PNone"
  "call (Suc n) E FNone PNone = Inr PNone"
  "call (Suc n) E (FList item_factory) PNone = Inl TypeError"
  "call (Suc n) E (FDict key_factory value_factory) PNone = Inl AttributeError"
  by (simp_all add: unless_str_def then_do_def py_str_def py_int_def py_float_def
        parse_date_def parse_datetime_def py_iter_def py_items_def)

lemma make_loop_appended:
  assumes "make_loop conv before (PDict d) = Inr (PDict d1)"
  shows "make_loop conv (before @ props) (PDict d) = make_loop conv props (PDict d1)"
  using assms
proof (induction before arbitrary: d)
  case Nil
  then show ?case by simp
next
  case (Cons p before)
  obtain key f where p: "p = (key, f)" by (cases p)
  from Cons.prems obtain v where
    v: "conv f (case map_of d (PStr key) of Some x \<Rightarrow> x | None \<Rightarrow> PNone) = Inr v" and
    rest: "make_loop conv before (PDict (AList.update (PStr key) v d)) = Inr (PDict d1)"
    by (auto simp: p split: sum.splits)
  from Cons.IH[OF rest] show ?case by (simp add: p v)
qed

lemma data_after_appended:
  assumes "make_loop conv before (PDict d) = Inr (PDict d1)"
  shows "data_after conv after (before @ props) d = data_after conv after props d1"
  using assms
proof (induction before arbitrary: d)
  case Nil
  then show ?case by simp
next
  case (Cons p before)
  obtain key f where p: "p = (key, f)" by (cases p)
  from Cons.prems obtain v where
    v: "conv f (case map_of d (PStr key) of Some x \<Rightarrow> x | None \<Rightarrow> PNone) = Inr v" and
    rest: "make_loop conv before (PDict (AList.update (PStr key) v d)) = Inr (PDict d1)"
    by (auto simp: p split: sum.splits)
  from Cons.IH[OF rest] v show ?case by (simp add: p split: option.splits)
qed

lemma data_after_of_loop:
  assumes "make_loop conv props (PDict d) = Inr (PDict d')"
  shows "data_after conv after props d = d'"
  using data_after_appended[OF assms, of after "[]"] by simp

lemma data_after_at_failure:
  assumes "make_loop conv before (PDict d) = Inr (PDict d1)"
    and "conv f (case map_of d1 (PStr key) of Some v \<Rightarrow> v | None \<Rightarrow> PNone) = Inl ex"
  shows "data_after conv after (before @ (key, f) # rest) d =
           (case map_of d1 (PStr key) of
              None \<Rightarrow> d1
            | Some v \<Rightarrow> AList.update (PStr key) (after f v) d1)"
  using assms(2) by (simp add: data_after_appended[OF assms(1)] split: option.splits)

lemma make_loop_at_failure:
  assumes "make_loop conv before (PDict d) = Inr (PDict d1)"
    and "conv f (case map_of d1 (PStr key) of Some v \<Rightarrow> v | None \<Rightarrow> PNone) = Inl ex"
  shows "make_loop conv (before @ (key, f) # rest) (PDict d) = Inl ex"
  using assms(2) by (simp add: make_loop_appended[OF assms(1)])

lemma argument_after_FMake:
  "0 < n \<Longrightarrow> argument_after n E (FMake c) (PDict d) =
     (case get_props c of
        Inl e \<Rightarrow> PDict d
      | Inr props \<Rightarrow>
          (case make_loop (call (n - 1) E) props (PDict d) of
             Inl e \<Rightarrow> PDict (data_after (call (n - 1) E) (argument_after (n - 1) E) props d)
           | Inr data \<Rightarrow>
               (case construct c data [] of
                  Inr (PObj c' d') \<Rightarrow> (if truthy data then PDict d' else data)
                | _ \<Rightarrow> data)))"
proof -
  assume "0 < n"
  then obtain m where n: "n = Suc m" by (cases n) auto
  show ?thesis unfolding n diff_Suc_1 by simp
qed

lemma argument_after_leaf:
  assumes "f \<in> {FAny, FBool, FStr, FInt, FFloat, FDate, FDatetime, FNullable, FNone}"
  shows "argument_after n E f val = val"
  using assms by (cases n) auto

lemma update_same: "map_of d k = Some v \<Longrightarrow> AList.update k v d = d"
  by (induction d) auto




lemma rxdate_at_least_5: "fullmatch rxdate (strip ''at least 5'') = None"
  by (simp add: rxdate_def rx_defs str_defs)

lemma rxnum_at_least_5:
  "fullmatch rxnum (strip ''at least 5'') = Some [(1, ''least''), (2, ''5'')]"
  by (simp add: rxnum_def rx_defs str_defs)









text \<open>
  C1 (the code does not do this). The plan compiled from the clause
  \<^verbatim>\<open>("!name", "Tomato")\<close> has one local predicate, which is false for a record named
  Tomato. \<^verbatim>\<open>execute\<close> still returns that record: with the converted records being the
  raw mappings (a caller has to assign \<^verbatim>\<open>factory\<close>, since \<^verbatim>\<open>__init__\<close> never does), the
  record that fails the predicate is in the result. With \<^verbatim>\<open>factory\<close> left unassigned the
  first record raises \<^verbatim>\<open>AttributeError\<close>, and with the factory of \<^verbatim>\<open>Plant\<close> the predicate
  raises \<^verbatim>\<open>TypeError\<close> on the typed record, which it subscripts.
\<close>

theorem execute_returns_record_that_fails_predicate:
  "PointQuery_init example_env Plant (PList [PList [PStr ''!name'', PStr ''Tomato'']])
     = Inr \<lparr>predicates = [unequal_predicate (getter False ''name'') (PStr ''Tomato'')],
            filter_obj = [(PStr ''pointer_type'', PStr ''Plant'')],
            factory = None\<rparr>
   \<and> unequal_predicate (getter False ''name'') (PStr ''Tomato'')
        (PDict [(PStr ''name'', PStr ''Tomato'')]) = Inr False
   \<and> execute (\<lambda>f. Inr [PDict [(PStr ''name'', PStr ''Tomato'')]])
        \<lparr>predicates = [unequal_predicate (getter False ''name'') (PStr ''Tomato'')],
         filter_obj = [(PStr ''pointer_type'', PStr ''Plant'')],
         factory = Some Inr\<rparr>
       = Inr [PDict [(PStr ''name'', PStr ''Tomato'')]]
   \<and> execute (\<lambda>f. Inr [PDict [(PStr ''name'', PStr ''Tomato'')]])
        \<lparr>predicates = [unequal_predicate (getter False ''name'') (PStr ''Tomato'')],
         filter_obj = [(PStr ''pointer_type'', PStr ''Plant'')],
         factory = None\<rparr>
       = Inl AttributeError
   \<and> execute (\<lambda>f. Inr [PDict [(PStr ''name'', PStr ''Tomato'')]])
        \<lparr>predicates = [unequal_predicate (getter False ''name'') (PStr ''Tomato'')],
         filter_obj = [(PStr ''pointer_type'', PStr ''Plant'')],
         factory = Some (\<lambda>data. construct Plant data [])\<rparr>
       = Inl TypeError"
proof -
  have compiled:
    "PointQuery_init example_env Plant (PList [PList [PStr ''!name'', PStr ''Tomato'']])
     = Inr \<lparr>predicates = [unequal_predicate (getter False ''name'') (PStr ''Tomato'')],
            filter_obj = [(PStr ''pointer_type'', PStr ''Plant'')],
            factory = None\<rparr>"
    by (simp add: PointQuery_init_def props_plant unless_str_def py_iter_def then_do_def
          compile_item_def compile_clause_def number_clause_def literal_clause_def
          tomato_no_date tomato_no_number ismeta_of_def drop_empty_meta_def
          get_pointer_type_def example_env_def)
  have fails: "unequal_predicate (getter False ''name'') (PStr ''Tomato'')
        (PDict [(PStr ''name'', PStr ''Tomato'')]) = Inr False"
    by (simp add: unequal_predicate_def getter_def subscript_def then_do_def)
  have kept: "execute (\<lambda>f. Inr [PDict [(PStr ''name'', PStr ''Tomato'')]])
        \<lparr>predicates = [unequal_predicate (getter False ''name'') (PStr ''Tomato'')],
         filter_obj = [(PStr ''pointer_type'', PStr ''Plant'')],
         factory = Some Inr\<rparr>
       = Inr [PDict [(PStr ''name'', PStr ''Tomato'')]]"
    by (simp add: execute_def then_do_def fails)
  have unassigned: "execute (\<lambda>f. Inr [PDict [(PStr ''name'', PStr ''Tomato'')]])
        \<lparr>predicates = [unequal_predicate (getter False ''name'') (PStr ''Tomato'')],
         filter_obj = [(PStr ''pointer_type'', PStr ''Plant'')],
         factory = None\<rparr>
       = Inl AttributeError"
    by (simp add: execute_def then_do_def)
  have typed: "\<exists>d. construct Plant (PDict [(PStr ''name'', PStr ''Tomato'')]) [] = Inr (PObj Plant d)"
    using construct_point [of Plant "PDict [(PStr ''name'', PStr ''Tomato'')]" "[]" Plant]
    by (auto simp: is_point_def)
  then obtain d where d: "construct Plant (PDict [(PStr ''name'', PStr ''Tomato'')]) [] = Inr (PObj Plant d)"
    by blast
  have raises: "execute (\<lambda>f. Inr [PDict [(PStr ''name'', PStr ''Tomato'')]])
        \<lparr>predicates = [unequal_predicate (getter False ''name'') (PStr ''Tomato'')],
         filter_obj = [(PStr ''pointer_type'', PStr ''Plant'')],
         factory = Some (\<lambda>data. construct Plant data [])\<rparr>
       = Inl TypeError"
    by (simp add: execute_def then_do_def d unequal_predicate_def getter_def subscript_def)
  from compiled fails kept unassigned raises show ?thesis by blast
qed

lemma nullable_calls_itself:
  assumes "val \<noteq> PNone" and "val \<noteq> PStr ''None''"
  shows "call depth E FNullable val = Inl RecursionError"
  using assms by (induction depth) simp_all

lemma nullable_of_none:
  assumes "val = PNone \<or> val = PStr ''None''"
  shows "call (Suc depth) E FNullable val = Inr PNone"
  using assms by auto

lemma optional_is_nullable:
  assumes "get_factory t = Inr inner" and "t \<noteq> TNoneType"
  shows "get_factory (Optional t) = Inr FNullable"
  using assms by (simp add: Optional_def)

text \<open>
  C2 (the code does not do this). For \<^verbatim>\<open>Optional[int]\<close> the registry returns the lambda
  that refers to itself. It maps \<^verbatim>\<open>None\<close> and \<^verbatim>\<open>'None'\<close> to \<^verbatim>\<open>None\<close>; for the input 5 it
  ends in \<^verbatim>\<open>RecursionError\<close>, while the factory of \<^verbatim>\<open>int\<close> returns 5.
\<close>

theorem optional_factory_never_delegates:
  "get_factory (Optional TInt) = Inr FNullable
   \<and> convert example_env FNullable PNone = Inr PNone
   \<and> convert example_env FNullable (PStr ''None'') = Inr PNone
   \<and> convert example_env FInt (PInt 5) = Inr (PInt 5)
   \<and> convert example_env FNullable (PInt 5) = Inl RecursionError"
proof -
  have limit: "recursion_limit example_env = Suc 999"
    by (simp add: example_env_def)
  have a: "get_factory (Optional TInt) = Inr FNullable"
    by (simp add: Optional_def)
  have b: "convert example_env FNullable PNone = Inr PNone"
    unfolding convert_def limit by (rule nullable_of_none) simp
  have c: "convert example_env FNullable (PStr ''None'') = Inr PNone"
    unfolding convert_def limit by (rule nullable_of_none) simp
  have d: "convert example_env FInt (PInt 5) = Inr (PInt 5)"
    unfolding convert_def limit
    by (subst call.simps(2)) (simp add: unless_str_def py_int_def then_do_def)
  have e: "convert example_env FNullable (PInt 5) = Inl RecursionError"
    unfolding convert_def by (rule nullable_calls_itself) simp_all
  from a b c d e show ?thesis by blast
qed

lemma offset_now: "parse_offset E (PStr ''now'') False = Inr (Some 0)"
  by (simp add: rx_defs str_defs offset_defs)

lemma offset_in_0_days: "parse_offset E (PStr ''in 0 days'') False = Inr (Some 0)"
  by (simp add: rx_defs str_defs offset_defs)

lemma offset_in_3_years: "parse_offset E (PStr ''in 3 years'') False = Inl TypeError"
  by (simp add: rx_defs str_defs offset_defs)

lemma offset_in_3_days: "parse_offset E (PStr ''in 3 days'') False = Inr (Some 259200000000)"
  by (simp add: rx_defs str_defs offset_defs)

lemma strptime_now: "strptime_datetime (strip ''now'') = Inl ValueError"
  by (simp add: rx_defs str_defs strptime_defs)

lemma strptime_in_0_days: "strptime_datetime (strip ''in 0 days'') = Inl ValueError"
  by (simp add: rx_defs str_defs strptime_defs)

lemma rxdate_now: "fullmatch rxdate (strip ''now'') = Some [(2, ''now'')]"
  by (simp add: rxdate_def rx_defs str_defs)

lemma rxdate_in_0_days: "fullmatch rxdate (strip ''in 0 days'') = Some [(2, ''in 0 days'')]"
  by (simp add: rxdate_def rx_defs str_defs)

lemma rxdate_in_3_years: "fullmatch rxdate (strip ''in 3 years'') = Some [(2, ''in 3 years'')]"
  by (simp add: rxdate_def rx_defs str_defs)

lemma rxdate_in_3_days: "fullmatch rxdate (strip ''in 3 days'') = Some [(2, ''in 3 days'')]"
  by (simp add: rxdate_def rx_defs str_defs)

text \<open>
  C3 (the code does not do this). The pattern of the compiler takes \<^verbatim>\<open>now\<close>,
  \<^verbatim>\<open>in 0 days\<close> and \<^verbatim>\<open>in 3 years\<close> as instants, and the compiler raises on each of them:
  the offset of \<^verbatim>\<open>now\<close> and of \<^verbatim>\<open>in 0 days\<close> is the zero \<^verbatim>\<open>timedelta\<close>, which
  \<^verbatim>\<open>if offset:\<close> takes for no offset, so the text goes to \<^verbatim>\<open>strptime\<close>
  (\<^verbatim>\<open>ValueError\<close>); \<^verbatim>\<open>years\<close> is no keyword of \<^verbatim>\<open>timedelta\<close> (\<^verbatim>\<open>TypeError\<close>). The clause
  \<^verbatim>\<open>in 3 days\<close> is computed as the claim says.
\<close>

theorem compiler_raises_on_now:
  "fullmatch rxdate (strip ''now'') = Some [(2, ''now'')]
   \<and> parse_datetime E (PStr ''now'') PNone = Inl ValueError
   \<and> compile_clause E props q ''updated_at'' (PStr ''now'') = Inl ValueError
   \<and> compile_clause E props q ''updated_at'' (PStr ''in 0 days'') = Inl ValueError
   \<and> compile_clause E props q ''updated_at'' (PStr ''in 3 years'') = Inl TypeError
   \<and> parse_datetime example_env (PStr ''in 3 days'') PNone
        = Inr (PDatetime (now example_env + 259200000000))"
proof -
  have a: "parse_datetime E (PStr ''now'') PNone = Inl ValueError"
    by (simp add: parse_datetime_def offset_now strptime_now then_do_def)
  have b: "compile_clause E props q ''updated_at'' (PStr ''now'') = Inl ValueError"
    by (simp add: compile_clause_def rxdate_now group_def a then_do_def)
  have c0: "parse_datetime E (PStr ''in 0 days'') PNone = Inl ValueError"
    by (simp add: parse_datetime_def offset_in_0_days strptime_in_0_days then_do_def)
  have c: "compile_clause E props q ''updated_at'' (PStr ''in 0 days'') = Inl ValueError"
    by (simp add: compile_clause_def rxdate_in_0_days group_def c0 then_do_def)
  have d0: "parse_datetime E (PStr ''in 3 years'') PNone = Inl TypeError"
    by (simp add: parse_datetime_def offset_in_3_years then_do_def)
  have d: "compile_clause E props q ''updated_at'' (PStr ''in 3 years'') = Inl TypeError"
    by (simp add: compile_clause_def rxdate_in_3_years group_def d0 then_do_def)
  have e: "parse_datetime example_env (PStr ''in 3 days'') PNone
        = Inr (PDatetime (now example_env + 259200000000))"
    by (simp add: parse_datetime_def offset_in_3_days then_do_def datetime_add_def
          MAXORDINAL_def US_PER_DAY_def example_env_def)
  from rxdate_now a b c d e show ?thesis by blast
qed

lemma rxdate_3_days_ago: "fullmatch rxdate (strip ''3 days ago'') = Some [(2, ''3 days ago'')]"
  by (simp add: rxdate_def rx_defs str_defs)

lemma rxdate_after_3_days_ago:
  "fullmatch rxdate (strip ''after 3 days ago'') = Some [(1, ''after''), (2, ''3 days ago'')]"
  by (simp add: rxdate_def rx_defs str_defs)

lemma offset_3_days_ago: "parse_offset E (PStr ''3 days ago'') False = Inr (Some (- 259200000000))"
  by (simp add: rx_defs str_defs offset_defs)

lemma instant_3_days_ago:
  "parse_datetime example_env (PStr ''3 days ago'') PNone = Inr (PDatetime 63852278400000000)"
  by (simp add: parse_datetime_def offset_3_days_ago then_do_def datetime_add_def
        MAXORDINAL_def US_PER_DAY_def example_env_def)

lemma text_3_days_ago: "strftime_datetime 63852278400000000 = ''2024-05-26T00:00:00.000000Z''"
  by (simp add: strftime_defs)

lemma rxdate_iso:
  "fullmatch rxdate (strip ''2024-06-01T00:00:00.000Z'') = Some [(2, ''2024-06-01T00:00:00.000Z'')]"
  by (simp add: rxdate_def rx_defs str_defs)

lemma offset_iso: "parse_offset E (PStr ''2024-06-01T00:00:00.000Z'') False = Inr None"
  by (simp add: rx_defs str_defs offset_defs)

lemma strptime_iso:
  "strptime_datetime (strip ''2024-06-01T00:00:00.000Z'') = Inr 63852796800000000"
  by (simp add: rx_defs str_defs strptime_defs)

lemma instant_iso:
  "parse_datetime E (PStr ''2024-06-01T00:00:00.000Z'') PNone = Inr (PDatetime 63852796800000000)"
  by (simp add: parse_datetime_def offset_iso strptime_iso then_do_def)

lemma text_iso: "strftime_datetime 63852796800000000 = ''2024-06-01T00:00:00.000000Z''"
  by (simp add: strftime_defs)

lemma rxdate_iso_26:
  "fullmatch rxdate (strip ''2024-05-26T00:00:00.000Z'') = Some [(2, ''2024-05-26T00:00:00.000Z'')]"
  by (simp add: rxdate_def rx_defs str_defs)

lemma offset_iso_26: "parse_offset E (PStr ''2024-05-26T00:00:00.000Z'') False = Inr None"
  by (simp add: rx_defs str_defs offset_defs)

lemma strptime_iso_26:
  "strptime_datetime (strip ''2024-05-26T00:00:00.000Z'') = Inr 63852278400000000"
  by (simp add: rx_defs str_defs strptime_defs)

lemma instant_iso_26:
  "parse_datetime E (PStr ''2024-05-26T00:00:00.000Z'') PNone = Inr (PDatetime 63852278400000000)"
  by (simp add: parse_datetime_def offset_iso_26 strptime_iso_26 then_do_def)

lemma pad6_digits: "length (pad6 n) = 6 \<and> list_all is_digit (pad6 n)"
  by (simp add: pad6_def digit_char_is_digit)

text \<open>
  What the compiler does with a clause whose string value the date grammar takes and whose
  instant it computes: without qualifier and without negation the text of the instant is
  stored in the filter, under the key or, for a key routed to the metadata, in the \<^verbatim>\<open>meta\<close>
  part, and no predicate is added; without qualifier and with negation a predicate of
  inequality with that text is added and the filter stays; with a qualifier a predicate of
  the date kind is added, with \<open><\<close> for \<^verbatim>\<open>before\<close> (\<open>\<ge>\<close> when negated) and \<open>>\<close> for
  \<^verbatim>\<open>after\<close> (\<open>\<le>\<close> when negated), and the filter stays.
\<close>

lemma compile_date_clause:
  assumes "fullmatch rxdate (strip s) = Some g"
    and "parse_datetime E (PStr (group g 2)) PNone = Inr (PDatetime t)"
    and "negate = (take 1 key0 = ''!'')"
    and "key = (if negate then drop 1 key0 else key0)"
    and "ismeta = ismeta_of props key"
  shows "(group g 1 = [] \<and> \<not> negate \<and> \<not> ismeta \<longrightarrow>
            compile_clause E props q key0 (PStr s) =
              Inr (q\<lparr>filter_obj := AList.update (PStr key) (PStr (strftime_datetime t))
                                       (filter_obj q)\<rparr>))
     \<and> (group g 1 = [] \<and> \<not> negate \<and> ismeta \<longrightarrow>
            (\<forall>m. map_of (filter_obj q) (PStr ''meta'') = Some (PDict m) \<longrightarrow>
              compile_clause E props q key0 (PStr s) =
                Inr (q\<lparr>filter_obj := AList.update (PStr ''meta'')
                         (PDict (AList.update (PStr key) (PStr (strftime_datetime t)) m))
                         (filter_obj q)\<rparr>)))
     \<and> (group g 1 = [] \<and> negate \<longrightarrow>
            compile_clause E props q key0 (PStr s) =
              Inr (q\<lparr>predicates := predicates q @
                     [unequal_predicate (getter ismeta key) (PStr (strftime_datetime t))]\<rparr>))
     \<and> (group g 1 = ''before'' \<longrightarrow>
            compile_clause E props q key0 (PStr s) =
              Inr (q\<lparr>predicates := predicates q @
                     [date_predicate E (getter ismeta key) (if negate then Ge else Lt)
                        (PDatetime t)]\<rparr>))
     \<and> (group g 1 = ''after'' \<longrightarrow>
            compile_clause E props q key0 (PStr s) =
              Inr (q\<lparr>predicates := predicates q @
                     [date_predicate E (getter ismeta key) (if negate then Le else Gt)
                        (PDatetime t)]\<rparr>))"
proof -
  note defs = compile_clause_def assms(1) assms(2) then_do_def dump_datetime_def
    number_clause_def rxnum_rejects_instant literal_clause_def Let_def
  have a: "compile_clause E props q key0 (PStr s) =
              Inr (q\<lparr>filter_obj := AList.update (PStr key) (PStr (strftime_datetime t))
                                       (filter_obj q)\<rparr>)"
    if "group g 1 = []" "\<not> negate" "\<not> ismeta"
    using that unfolding assms(5) assms(4) assms(3) by (simp add: defs)
  have b: "compile_clause E props q key0 (PStr s) =
                Inr (q\<lparr>filter_obj := AList.update (PStr ''meta'')
                         (PDict (AList.update (PStr key) (PStr (strftime_datetime t)) m))
                         (filter_obj q)\<rparr>)"
    if "group g 1 = []" "\<not> negate" "ismeta" "map_of (filter_obj q) (PStr ''meta'') = Some (PDict m)"
    for m
    using that unfolding assms(5) assms(4) assms(3) by (simp add: defs set_meta_filter_def)
  have c: "compile_clause E props q key0 (PStr s) =
              Inr (q\<lparr>predicates := predicates q @
                     [unequal_predicate (getter ismeta key) (PStr (strftime_datetime t))]\<rparr>)"
    if "group g 1 = []" "negate"
    using that unfolding assms(5) assms(4) assms(3) by (simp add: defs)
  have d: "compile_clause E props q key0 (PStr s) =
              Inr (q\<lparr>predicates := predicates q @
                     [date_predicate E (getter ismeta key) (if negate then Ge else Lt)
                        (PDatetime t)]\<rparr>)"
    if "group g 1 = ''before''"
    using that unfolding assms(5) assms(4) assms(3) by (simp add: defs)
  have e: "compile_clause E props q key0 (PStr s) =
              Inr (q\<lparr>predicates := predicates q @
                     [date_predicate E (getter ismeta key) (if negate then Le else Gt)
                        (PDatetime t)]\<rparr>)"
    if "group g 1 = ''after''"
    using that unfolding assms(5) assms(4) assms(3) by (simp add: defs)
  from a b c d e show ?thesis by blast
qed


lemma negated_instant_is_filtered_locally:
  "compile_clause example_env (map fst (get_type_hints Plant))
        \<lparr>predicates = [], filter_obj = [(PStr ''pointer_type'', PStr ''Plant''),
                                         (PStr ''meta'', PDict [])], factory = None\<rparr>
        ''!updated_at'' (PStr ''3 days ago'')
     = Inr \<lparr>predicates = [unequal_predicate (getter False ''updated_at'')
                             (PStr ''2024-05-26T00:00:00.000000Z'')],
            filter_obj = [(PStr ''pointer_type'', PStr ''Plant''), (PStr ''meta'', PDict [])],
            factory = None\<rparr>"
  by (simp add: rxdate_3_days_ago compile_clause_def group_def instant_3_days_ago then_do_def
        dump_datetime_def text_3_days_ago number_clause_def rxnum_rejects_instant [of 63852278400000000, unfolded text_3_days_ago]
        literal_clause_def ismeta_of_def get_type_hints_def Optional_def)

lemma iso_instant_stored:
  "compile_clause E (map fst (get_type_hints Plant)) q ''updated_at''
        (PStr ''2024-06-01T00:00:00.000Z'')
     = Inr (q\<lparr>filter_obj := AList.update (PStr ''updated_at'')
                               (PStr ''2024-06-01T00:00:00.000000Z'') (filter_obj q)\<rparr>)"
proof -
  have im: "False = ismeta_of (map fst (get_type_hints Plant)) ''updated_at''"
    by (simp add: ismeta_of_def get_type_hints_def Optional_def)
  have n: "False = (take 1 ''updated_at'' = ''!'')" by simp
  have k: "''updated_at'' = (if False then drop 1 ''updated_at'' else ''updated_at'')" by simp
  have i3: "parse_datetime E (PStr (group [(2, ''2024-06-01T00:00:00.000Z'')] 2)) PNone
              = Inr (PDatetime 63852796800000000)"
    by (simp add: group_def instant_iso)
  show ?thesis
    using compile_date_clause [OF rxdate_iso i3 n k im, of q]
    by (simp add: group_def text_iso)
qed

text \<open>
  C4 (the code does not do this). The docstrings of \<^verbatim>\<open>parse_datetime\<close> and
  \<^verbatim>\<open>dump_datetime\<close> give the format of an instant as \<^verbatim>\<open>YYYY-MM-DDThh:mm:ss.fffZ\<close>, with
  three digits after the point. The clause
  \<^verbatim>\<open>("updated_at", "2024-06-01T00:00:00.000Z")\<close> has an instant in that format as its
  value, and what the compiler stores in the filter for the exact match is another text,
  \<^verbatim>\<open>2024-06-01T00:00:00.000000Z\<close>: \<^verbatim>\<open>dump_datetime\<close> formats with \<^verbatim>\<open>%f\<close>, which prints the
  six digits of the microseconds, so that no instant at all is stored in the documented
  format.

  With a qualifier, the clause \<^verbatim>\<open>("updated_at", "after 3 days ago")\<close> compiles to the
  predicate \<^verbatim>\<open>lambda v: operator.gt(parse_datetime(v['updated_at']), date)\<close>. On a raw
  mapping it parses the text of the field and compares strictly; on a record, the typed
  instance the executor hands it, it raises \<^verbatim>\<open>TypeError\<close>, because an instance cannot be
  subscripted.
\<close>

theorem instant_is_not_stored_in_the_documented_format:
  "PointQuery_init example_env Plant
        (PList [PList [PStr ''updated_at'', PStr ''2024-06-01T00:00:00.000Z'']])
     = Inr \<lparr>predicates = [],
            filter_obj = [(PStr ''pointer_type'', PStr ''Plant''),
                          (PStr ''updated_at'', PStr ''2024-06-01T00:00:00.000000Z'')],
            factory = None\<rparr>
   \<and> compile_clause E (map fst (get_type_hints Plant)) q ''updated_at''
        (PStr ''2024-06-01T00:00:00.000Z'')
     = Inr (q\<lparr>filter_obj := AList.update (PStr ''updated_at'')
                               (PStr ''2024-06-01T00:00:00.000000Z'') (filter_obj q)\<rparr>)
   \<and> (\<exists>front us. strftime_datetime t = front @ ''.'' @ us @ ''Z''
                    \<and> length us = 6 \<and> list_all is_digit us)
   \<and> compile_clause example_env (map fst (get_type_hints Plant))
        \<lparr>predicates = [], filter_obj = [(PStr ''pointer_type'', PStr ''Plant''),
                                         (PStr ''meta'', PDict [])], factory = None\<rparr>
        ''updated_at'' (PStr ''after 3 days ago'')
     = Inr \<lparr>predicates = [date_predicate example_env (getter False ''updated_at'') Gt
                             (PDatetime 63852278400000000)],
            filter_obj = [(PStr ''pointer_type'', PStr ''Plant''), (PStr ''meta'', PDict [])],
            factory = None\<rparr>
   \<and> date_predicate example_env (getter False ''updated_at'') Gt (PDatetime 63852278400000000)
        (PObj Plant [(PStr ''updated_at'', PDatetime 63852796800000000)]) = Inl TypeError
   \<and> date_predicate example_env (getter False ''updated_at'') Gt (PDatetime 63852278400000000)
        (PDict [(PStr ''updated_at'', PStr ''2024-06-01T00:00:00.000Z'')]) = Inr True
   \<and> date_predicate example_env (getter False ''updated_at'') Gt (PDatetime 63852278400000000)
        (PDict [(PStr ''updated_at'', PStr ''2024-05-26T00:00:00.000Z'')]) = Inr False"
proof -
  have im: "False = ismeta_of (map fst (get_type_hints Plant)) ''updated_at''"
    by (simp add: ismeta_of_def get_type_hints_def Optional_def)
  have n: "False = (take 1 ''updated_at'' = ''!'')" by simp
  have k: "''updated_at'' = (if False then drop 1 ''updated_at'' else ''updated_at'')" by simp
  have i1: "parse_datetime example_env (PStr (group [(1, ''after''), (2, ''3 days ago'')] 2)) PNone
              = Inr (PDatetime 63852278400000000)"
    by (simp add: group_def instant_3_days_ago)
  note stored = iso_instant_stored
  have six: "\<exists>front us. strftime_datetime t = front @ ''.'' @ us @ ''Z''
                    \<and> length us = 6 \<and> list_all is_digit us"
  proof -
    let ?secs = "nat ((t mod US_PER_DAY) div 1000000)"
    have "strftime_datetime t =
            (strftime_date (t div US_PER_DAY) @ ''T'' @ pad2 (?secs div 3600) @ '':''
             @ pad2 (?secs div 60 mod 60) @ '':'' @ pad2 (?secs mod 60))
            @ ''.'' @ pad6 (nat (t mod 1000000)) @ ''Z''"
      by (simp add: strftime_datetime_def Let_def)
    with pad6_digits[of "nat (t mod 1000000)"] show ?thesis by blast
  qed
  have compiled: "compile_clause example_env (map fst (get_type_hints Plant))
        \<lparr>predicates = [], filter_obj = [(PStr ''pointer_type'', PStr ''Plant''),
                                         (PStr ''meta'', PDict [])], factory = None\<rparr>
        ''updated_at'' (PStr ''after 3 days ago'')
     = Inr \<lparr>predicates = [date_predicate example_env (getter False ''updated_at'') Gt
                             (PDatetime 63852278400000000)],
            filter_obj = [(PStr ''pointer_type'', PStr ''Plant''), (PStr ''meta'', PDict [])],
            factory = None\<rparr>"
    using compile_date_clause [OF rxdate_after_3_days_ago i1 n k im]
    by (simp add: group_def)
  have typed: "date_predicate example_env (getter False ''updated_at'') Gt
        (PDatetime 63852278400000000)
        (PObj Plant [(PStr ''updated_at'', PDatetime 63852796800000000)]) = Inl TypeError"
    by (simp add: date_predicate_def getter_of_instance then_do_def)
  have later: "date_predicate example_env (getter False ''updated_at'') Gt
        (PDatetime 63852278400000000)
        (PDict [(PStr ''updated_at'', PStr ''2024-06-01T00:00:00.000Z'')]) = Inr True"
    by (simp add: date_predicate_def getter_def subscript_def then_do_def instant_iso
          compare_datetime_def)
  have same: "date_predicate example_env (getter False ''updated_at'') Gt
        (PDatetime 63852278400000000)
        (PDict [(PStr ''updated_at'', PStr ''2024-05-26T00:00:00.000Z'')]) = Inr False"
    by (simp add: date_predicate_def getter_def subscript_def then_do_def instant_iso_26
          compare_datetime_def)
  have init: "PointQuery_init example_env Plant
        (PList [PList [PStr ''updated_at'', PStr ''2024-06-01T00:00:00.000Z'']])
     = Inr \<lparr>predicates = [],
            filter_obj = [(PStr ''pointer_type'', PStr ''Plant''),
                          (PStr ''updated_at'', PStr ''2024-06-01T00:00:00.000000Z'')],
            factory = None\<rparr>"
    using iso_instant_stored [of example_env
                    "\<lparr>predicates = [], filter_obj = [(PStr ''pointer_type'', PStr ''Plant''),
                                         (PStr ''meta'', PDict [])], factory = None\<rparr>"]
    by (simp add: PointQuery_init_def props_plant unless_str_def py_iter_def then_do_def
          compile_item_def get_type_hints_def Optional_def drop_empty_meta_def
          get_pointer_type_def example_env_def)
  from init stored six compiled typed later same show ?thesis by blast
qed

text \<open>
  C5 (the code does not do this). The clause \<^verbatim>\<open>("radius", "at least 5")\<close> compiles to the
  predicate \<^verbatim>\<open>lambda v: operator.ge(float(v['radius']), 5.0)\<close>. On a raw mapping it
  compares as the claim says; on a record, the typed instance the executor hands it and
  its annotation names, it raises \<^verbatim>\<open>TypeError\<close>, because an instance cannot be
  subscripted.
\<close>

theorem number_predicate_raises_on_record:
  "compile_clause example_env (map fst (get_type_hints Plant))
        \<lparr>predicates = [], filter_obj = [(PStr ''pointer_type'', PStr ''Plant''),
                                         (PStr ''meta'', PDict [])], factory = None\<rparr>
        ''radius'' (PStr ''at least 5'')
     = Inr \<lparr>predicates = [number_predicate example_env (getter False ''radius'') Ge 5],
            filter_obj = [(PStr ''pointer_type'', PStr ''Plant''), (PStr ''meta'', PDict [])],
            factory = None\<rparr>
   \<and> number_predicate example_env (getter False ''radius'') Ge 5
        (PObj Plant [(PStr ''radius'', PFloat 5)]) = Inl TypeError
   \<and> number_predicate example_env (getter False ''radius'') Ge 5
        (PDict [(PStr ''radius'', PFloat 5)]) = Inr True
   \<and> number_predicate example_env (getter False ''radius'') Ge 5
        (PDict [(PStr ''radius'', PFloat (4999 / 1000))]) = Inr False"
proof -
  have a: "compile_clause example_env (map fst (get_type_hints Plant))
        \<lparr>predicates = [], filter_obj = [(PStr ''pointer_type'', PStr ''Plant''),
                                         (PStr ''meta'', PDict [])], factory = None\<rparr>
        ''radius'' (PStr ''at least 5'')
     = Inr \<lparr>predicates = [number_predicate example_env (getter False ''radius'') Ge 5],
            filter_obj = [(PStr ''pointer_type'', PStr ''Plant''), (PStr ''meta'', PDict [])],
            factory = None\<rparr>"
    by (simp add: compile_clause_def rxdate_at_least_5 number_clause_def rxnum_at_least_5
          group_def then_do_def ismeta_of_def get_type_hints_def Optional_def example_env_def)
  have b: "number_predicate example_env (getter False ''radius'') Ge 5
        (PObj Plant [(PStr ''radius'', PFloat 5)]) = Inl TypeError"
    by (simp add: number_predicate_def getter_of_instance then_do_def)
  have c: "number_predicate example_env (getter False ''radius'') Ge 5
        (PDict [(PStr ''radius'', PFloat 5)]) = Inr True"
    by (simp add: number_predicate_def getter_def subscript_def then_do_def py_float_def)
  have d: "number_predicate example_env (getter False ''radius'') Ge 5
        (PDict [(PStr ''radius'', PFloat (4999 / 1000))]) = Inr False"
    by (simp add: number_predicate_def getter_def subscript_def then_do_def py_float_def)
  from a b c d show ?thesis by blast
qed

lemma json_of_x_1: "json_dumps example_env (PDict [(PStr ''x'', PInt 1)]) = Inr json_x_1"
  by (simp add: example_env_def)

lemma coordinate_without_y:
  "convert example_env (FMake Coordinate) (PDict [(PStr ''x'', PFloat 1)]) = Inl TypeError"
  by (simp add: convert_def example_env_def call_FMake call_FInt props_coordinate then_do_def
        unless_str_def py_int_def)

lemma coordinate_left_without_y:
  "left_by example_env (FMake Coordinate) (PDict [(PStr ''x'', PFloat 1)])
     = PDict [(PStr ''x'', PInt 1)]"
  by (simp add: left_by_def example_env_def argument_after_FMake call_FInt props_coordinate
        then_do_def unless_str_def py_int_def argument_after_leaf)

text \<open>
  C8, as stated, fails: converting \<^verbatim>\<open>{'x': 1.0}\<close> into \<^verbatim>\<open>Coordinate\<close> fails at the field
  \<^verbatim>\<open>y\<close> with \<^verbatim>\<open>int(None)\<close>, and what \<^verbatim>\<open>deserialize\<close> raises is that \<^verbatim>\<open>TypeError\<close>; the
  name of the schema and a payload are in the line it logs, not in the exception, and the
  payload logged is not the raw one: \<^verbatim>\<open>x\<close> has been converted by then, and the line ends
  with \<^verbatim>\<open>{"x": 1}\<close>.
\<close>

theorem deserialize_raises_the_conversion_error:
  "deserialize example_env (TClass Coordinate) (PDict [(PStr ''x'', PFloat 1)])
     = (Inl TypeError, [''Failed to deserialize Coordinate from data '' @ json_x_1])"
  by (simp add: deserialize_def then_do_def coordinate_without_y type_name_def
        payload_after_def coordinate_left_without_y json_of_x_1)

text \<open>
  C8, amended. Whenever the conversion of raw data into a type fails, \<^verbatim>\<open>deserialize\<close>
  raises and returns no value; when the log line can be built (the type has a name, as every
  class has, and \<^verbatim>\<open>json.dumps\<close> takes the payload) the exception raised is the one the
  conversion raised, and one line is logged, with the name of the type and the payload as
  the failed conversion has left it. For a class and a mapping that is the caller's mapping
  in which every field before the failing one holds its converted value, and the failing
  field what its own factory has left of it (a factory other than those of lists, dicts
  and classes leaves its argument as it was).
\<close>

theorem deserialize_propagates_failure:
  assumes "then_do (get_factory typ) (\<lambda>f. convert E f data) = Inl ex"
  shows "(\<exists>e. fst (deserialize E typ data) = Inl e)
     \<and> (\<forall>name payload. type_name E typ = Inr name
                     \<and> json_dumps E (payload_after E typ data) = Inr payload \<longrightarrow>
          deserialize E typ data =
            (Inl ex, [''Failed to deserialize '' @ name @ '' from data '' @ payload]))
     \<and> (\<forall>c. typ = TClass c \<longrightarrow> type_name E typ = Inr (cls_name c))
     \<and> (\<forall>c d depth before key f rest d1 e.
            typ = TClass c \<and> data = PDict d \<and> recursion_limit E = Suc depth
          \<and> get_props c = Inr (before @ (key, f) # rest)
          \<and> make_loop (call depth E) before (PDict d) = Inr (PDict d1)
          \<and> call depth E f (case map_of d1 (PStr key) of Some v \<Rightarrow> v | None \<Rightarrow> PNone) = Inl e
          \<longrightarrow> ex = e
            \<and> payload_after E typ data =
                PDict (case map_of d1 (PStr key) of
                         None \<Rightarrow> d1
                       | Some v \<Rightarrow> AList.update (PStr key) (argument_after depth E f v) d1))
     \<and> (\<forall>depth f v. f \<in> {FAny, FBool, FStr, FInt, FFloat, FDate, FDatetime, FNullable, FNone}
          \<longrightarrow> argument_after depth E f v = v)"
proof -
  have raises: "\<exists>e. fst (deserialize E typ data) = Inl e"
    using assms by (auto simp: deserialize_def split: sum.splits)
  have line: "deserialize E typ data =
            (Inl ex, [''Failed to deserialize '' @ name @ '' from data '' @ payload])"
    if "type_name E typ = Inr name" "json_dumps E (payload_after E typ data) = Inr payload"
    for name payload
    using assms that by (simp add: deserialize_def)
  have named: "type_name E typ = Inr (cls_name c)" if "typ = TClass c" for c
    using that by (simp add: type_name_def)
  have left: "ex = e \<and> payload_after E typ data =
                PDict (case map_of d1 (PStr key) of
                         None \<Rightarrow> d1
                       | Some v \<Rightarrow> AList.update (PStr key) (argument_after depth E f v) d1)"
    if t: "typ = TClass c" and d: "data = PDict d" and limit: "recursion_limit E = Suc depth"
      and props: "get_props c = Inr (before @ (key, f) # rest)"
      and loop: "make_loop (call depth E) before (PDict d) = Inr (PDict d1)"
      and fails: "call depth E f (case map_of d1 (PStr key) of Some v \<Rightarrow> v | None \<Rightarrow> PNone) = Inl e"
    for c d depth before key f rest d1 e
  proof -
    note stop = make_loop_at_failure[OF loop fails, of rest]
    have "convert E (FMake c) data = Inl e"
      by (simp add: convert_def limit props d stop then_do_def)
    with assms have "ex = e"
      by (simp add: t then_do_def)
    moreover have "payload_after E typ data =
                PDict (case map_of d1 (PStr key) of
                         None \<Rightarrow> d1
                       | Some v \<Rightarrow> AList.update (PStr key) (argument_after depth E f v) d1)"
      by (simp add: payload_after_def t left_by_def limit d props stop
            data_after_at_failure[OF loop fails])
    ultimately show ?thesis by simp
  qed
  have leaf: "argument_after depth E f v = v"
    if "f \<in> {FAny, FBool, FStr, FInt, FFloat, FDate, FDatetime, FNullable, FNone}"
    for depth f v
    using that by (rule argument_after_leaf)
  show ?thesis
    using raises line named left leaf by blast
qed

theorem deserialize_propagates_failure_witness:
  "deserialize example_env (TClass Coordinate)
       (PDict [(PStr ''x'', PFloat 1), (PStr ''y'', PStr ''north'')])
     = (Inl ValueError, [''Failed to deserialize '' @ ''Coordinate'' @ '' from data '' @ ''<json>''])
   \<and> payload_after example_env (TClass Coordinate)
       (PDict [(PStr ''x'', PFloat 1), (PStr ''y'', PStr ''north'')])
     = PDict [(PStr ''x'', PInt 1), (PStr ''y'', PStr ''north'')]"
proof -
  let ?d = "[(PStr ''x'', PFloat 1), (PStr ''y'', PStr ''north'')]"
  let ?d1 = "[(PStr ''x'', PInt 1), (PStr ''y'', PStr ''north'')]"
  have limit: "recursion_limit example_env = Suc 999"
    by (simp add: example_env_def)
  have props: "get_props Coordinate = Inr ([(''x'', FInt)] @ (''y'', FInt) # [(''z'', FInt)])"
    by (simp add: props_coordinate)
  have loop: "make_loop (call 999 example_env) [(''x'', FInt)] (PDict ?d) = Inr (PDict ?d1)"
    by (simp add: call_FInt unless_str_def py_int_def then_do_def)
  have fails: "call 999 example_env FInt
                 (case map_of ?d1 (PStr ''y'') of Some v \<Rightarrow> v | None \<Rightarrow> PNone) = Inl ValueError"
    by (simp add: call_FInt unless_str_def then_do_def example_env_def)
  note stop = make_loop_at_failure[OF loop fails, of "[(''z'', FInt)]", simplified]
  have limit': "recursion_limit example_env = 1000"
    by (simp add: example_env_def)
  have f: "then_do (get_factory (TClass Coordinate)) (\<lambda>f. convert example_env f (PDict ?d))
             = Inl ValueError"
    by (simp add: then_do_def convert_def limit' call_FMake props_coordinate stop)
  note r = deserialize_propagates_failure [OF f]
  from r limit props loop fails
  have p: "payload_after example_env (TClass Coordinate) (PDict ?d)
             = PDict (case map_of ?d1 (PStr ''y'') of
                        None \<Rightarrow> ?d1
                      | Some v \<Rightarrow> AList.update (PStr ''y'') (argument_after 999 example_env FInt v) ?d1)"
    by blast
  from r have "argument_after 999 example_env FInt (PStr ''north'') = PStr ''north''"
    by blast
  with p have p': "payload_after example_env (TClass Coordinate) (PDict ?d) = PDict ?d1"
    by simp
  have n: "type_name example_env (TClass Coordinate) = Inr ''Coordinate''"
    by (simp add: type_name_def)
  have j: "json_dumps example_env (payload_after example_env (TClass Coordinate) (PDict ?d))
             = Inr ''<json>''"
    unfolding p' by (simp add: example_env_def)
  from r n j have "deserialize example_env (TClass Coordinate) (PDict ?d)
     = (Inl ValueError, [''Failed to deserialize '' @ ''Coordinate'' @ '' from data '' @ ''<json>''])"
    by blast
  with p' show ?thesis by blast
qed

lemma construct_returns_instance:
  "construct c a kw = Inr obj \<Longrightarrow> \<exists>c' d'. obj = PObj c' d'"
  by (auto simp: construct_def then_do_def split: if_splits sum.splits prod.splits)

lemma make_command_example:
  "make_in example_env Command 0 [[(PStr ''args'', PDict [])]]
       = Inr (\<lparr>inst_class = Command, inst_dict = 0\<rparr>,
              [[(PStr ''args'', PDict []), (PStr ''kind'', PStr ''None'')]])"
proof -
  have limit: "recursion_limit example_env = 1000"
    by (simp add: example_env_def)
  have k: "construct Command (PDict [(PStr ''args'', PDict []), (PStr ''kind'', PStr ''None'')]) []
             = Inr (PObj Command [(PStr ''args'', PDict []), (PStr ''kind'', PStr ''None'')])"
    by (simp add: construct_def is_point_def Entity_new_def props_command then_do_def
          Entity_init_def setdefault_def)
  show ?thesis
    by (simp add: make_in_def limit props_command then_do_def call_FStr call_FDict
          unless_str_def py_items_def py_str_def construct_in_def k)
qed

lemma make_in_agrees_with_call:
  assumes "a < length store" and "make_in E c a store = Inr (r, store')"
  shows "convert E (FMake c) (PDict (store ! a))
           = Inr (PObj (inst_class r) (store' ! inst_dict r))"
proof -
  from assms(2) obtain depth where limit: "recursion_limit E = Suc depth"
    by (cases "recursion_limit E") (simp_all add: make_in_def)
  from assms(2) limit obtain props where props: "get_props c = Inr props"
    by (cases "get_props c") (simp_all add: make_in_def then_do_def)
  from assms(2) limit props obtain data where
    loop: "make_loop (call depth E) props (PDict (store ! a)) = Inr data"
    by (cases "make_loop (call depth E) props (PDict (store ! a))")
       (simp_all add: make_in_def then_do_def)
  from make_loop_dict[OF loop] obtain d where d: "data = PDict d" by blast
  from assms(2) have built: "construct_in c a [] (store[a := d]) = Inr (r, store')"
    by (simp add: make_in_def limit props loop d then_do_def)
  then obtain obj where obj: "construct c (PDict d) [] = Inr obj"
    using assms(1) by (cases "construct c (PDict d) []") (simp_all add: construct_in_def then_do_def)
  from construct_returns_instance[OF obj] obtain c' d' where o: "obj = PObj c' d'"
    by blast
  from built obj o assms(1) have "inst_class r = c' \<and> store' ! inst_dict r = d'"
    by (auto simp: construct_in_def then_do_def nth_append split: if_splits)
  then show ?thesis
    by (simp add: convert_def limit props loop d obj o then_do_def)
qed

text \<open>
  C10, as stated, fails twice. \<^verbatim>\<open>EntityFactory(Entity).make({})\<close> returns a record with a
  dict of its own, so a later write to the record does not reach the caller's mapping
  (address 0). And \<^verbatim>\<open>EntityFactory(Command).make({'args': {}})\<close> inserts the missing key
  \<^verbatim>\<open>kind\<close> with the string \<^verbatim>\<open>'None'\<close>, the conversion of \<^verbatim>\<open>None\<close> by \<^verbatim>\<open>str\<close>, not with
  \<^verbatim>\<open>None\<close>.
\<close>

theorem make_of_empty_mapping_is_not_shared:
  "make_in example_env Entity 0 [[]] = Inr (\<lparr>inst_class = Entity, inst_dict = 1\<rparr>, [[], []])
   \<and> setattr_in \<lparr>inst_class = Entity, inst_dict = 1\<rparr> ''name'' (PStr ''x'') [[], []] ! 0 = []
   \<and> make_in example_env Command 0 [[(PStr ''args'', PDict [])]]
       = Inr (\<lparr>inst_class = Command, inst_dict = 0\<rparr>,
              [[(PStr ''args'', PDict []), (PStr ''kind'', PStr ''None'')]])"
proof -
  have limit: "recursion_limit example_env = 1000"
    by (simp add: example_env_def)
  have e: "construct Entity (PDict []) [] = Inr (PObj Entity [])"
    by (simp add: construct_def is_point_def Entity_new_def props_entity then_do_def
          Entity_init_def)
  have a: "make_in example_env Entity 0 [[]]
             = Inr (\<lparr>inst_class = Entity, inst_dict = 1\<rparr>, [[], []])"
    by (simp add: make_in_def limit props_entity then_do_def construct_in_def e)
  have b: "setattr_in \<lparr>inst_class = Entity, inst_dict = 1\<rparr> ''name'' (PStr ''x'') [[], []] ! 0 = []"
    by (simp add: setattr_in_def)
  note c = make_command_example
  from a b c show ?thesis by blast
qed

text \<open>
  C10, amended. \<^verbatim>\<open>EntityFactory(cls).make(data)\<close> writes into the caller's mapping, for
  every declared field, the result of the field's factory on the entry it finds, or on
  \<^verbatim>\<open>None\<close> when the key is missing, and calls the class with that mapping. When the mapping
  is not empty or the schema declares a field, the \<^verbatim>\<open>__dict__\<close> of the record is the
  caller's mapping itself: it holds the record's fields, and a later write to an attribute of
  the record is a write to the caller's mapping.
\<close>

theorem make_shares_the_mapping:
  assumes "a < length store"
    and "make_in E c a store = Inr (r, store')"
    and "store ! a \<noteq> [] \<or> get_type_hints c \<noteq> []"
  shows "inst_dict r = a \<and> length store' = length store
     \<and> (\<forall>name v. setattr_in r name v store' ! a = setattr (store' ! a) name v)
     \<and> (\<exists>depth props d.
           recursion_limit E = Suc depth \<and> get_props c = Inr props
           \<and> make_loop (call depth E) props (PDict (store ! a)) = Inr (PDict d)
           \<and> (\<forall>k f. (k, f) \<in> set props \<longrightarrow>
                 (\<exists>v. call depth E f (case map_of (store ! a) (PStr k) of
                                         Some x \<Rightarrow> x | None \<Rightarrow> PNone) = Inr v
                      \<and> map_of d (PStr k) = Some v))
           \<and> construct c (PDict d) [] = Inr (PObj (inst_class r) (store' ! a)))"
proof -
  from assms(2) obtain depth where limit: "recursion_limit E = Suc depth"
    by (cases "recursion_limit E") (simp_all add: make_in_def)
  from assms(2) limit obtain props where props: "get_props c = Inr props"
    by (cases "get_props c") (simp_all add: make_in_def then_do_def)
  from assms(2) limit props obtain data where
    loop: "make_loop (call depth E) props (PDict (store ! a)) = Inr data"
    by (cases "make_loop (call depth E) props (PDict (store ! a))")
       (simp_all add: make_in_def then_do_def)
  from make_loop_dict[OF loop] obtain d where d: "data = PDict d" by blast
  have names: "map fst props = map fst (get_type_hints c)"
    by (rule get_props_names[OF props])
  then have dist: "distinct (map fst props)"
    by (simp add: distinct_type_hints)
  from assms(3) names have "store ! a \<noteq> [] \<or> props \<noteq> []"
    by auto
  with make_loop_not_empty[OF loop[unfolded d]] have ne: "d \<noteq> []"
    by blast
  from assms(2) have built: "construct_in c a [] (store[a := d]) = Inr (r, store')"
    by (simp add: make_in_def limit props loop d then_do_def)
  then obtain obj where obj: "construct c (PDict d) [] = Inr obj"
    using assms(1) by (cases "construct c (PDict d) []") (simp_all add: construct_in_def then_do_def)
  from construct_returns_instance[OF obj] obtain c' d' where o: "obj = PObj c' d'"
    by blast
  from built obj o ne assms(1) have r: "r = \<lparr>inst_class = c', inst_dict = a\<rparr>"
    and s: "store' = store[a := d']"
    by (simp_all add: construct_in_def then_do_def)
  have writes: "\<forall>k f. (k, f) \<in> set props \<longrightarrow>
                 (\<exists>v. call depth E f (case map_of (store ! a) (PStr k) of
                                         Some x \<Rightarrow> x | None \<Rightarrow> PNone) = Inr v
                      \<and> map_of d (PStr k) = Some v)"
    using make_loop_writes[OF loop[unfolded d] dist] by blast
  have vis: "\<forall>name v. setattr_in r name v store' ! a = setattr (store' ! a) name v"
    using assms(1) by (simp add: setattr_in_def r s)
  have fin: "construct c (PDict d) [] = Inr (PObj (inst_class r) (store' ! a))"
    using assms(1) by (simp add: obj o r s)
  have len: "length store' = length store" by (simp add: s)
  from limit props loop[unfolded d] writes fin vis len r show ?thesis
    by auto
qed

theorem make_shares_the_mapping_witness:
  "inst_dict \<lparr>inst_class = Command, inst_dict = 0\<rparr> = 0
   \<and> setattr_in \<lparr>inst_class = Command, inst_dict = 0\<rparr> ''kind'' (PStr ''wait'')
        [[(PStr ''args'', PDict []), (PStr ''kind'', PStr ''None'')]] ! 0
       = [(PStr ''args'', PDict []), (PStr ''kind'', PStr ''wait'')]"
proof -
  have m: "make_in example_env Command 0 [[(PStr ''args'', PDict [])]]
       = Inr (\<lparr>inst_class = Command, inst_dict = 0\<rparr>,
              [[(PStr ''args'', PDict []), (PStr ''kind'', PStr ''None'')]])"
    by (rule make_command_example)
  have l: "0 < length [[(PStr ''args'', PDict [])]]" by simp
  have n: "[[(PStr ''args'', PDict [])]] ! 0 \<noteq> [] \<or> get_type_hints Command \<noteq> []" by simp
  from make_shares_the_mapping [OF l m n] show ?thesis
    by (simp add: setattr_def)
qed

end
